theory Spec2Isabelle
  imports Complex_Main "HOL-Library.Finite_Map"
begin

section \<open>Attribute trees\<close>

text \<open>
  A decoded manifest is Go's \<^verbatim>\<open>map[string]interface{}\<close>: string keys, no order, no
  duplicate keys, values that are null, booleans, float64 numbers, strings, lists or
  nested maps. A finite map gives exactly that, and HOL equality on it is the structural
  comparison of two trees (\<^verbatim>\<open>cmp.Diff(x, y) == ""\<close>). The nil map and the empty map are
  both \<open>fmempty\<close>. A finite float64 is a rational number.
\<close>

datatype jv =
    JNull
  | JBool bool
  | JNumber rat
  | JString string
  | JArray "jv list"
  | JObject "(string, jv) fmap"

type_synonym obj = "(string, jv) fmap"

text \<open>The apostrophe, for the messages that quote a value (\<^verbatim>\<open>'%s'\<close>).\<close>

definition quoted :: "string \<Rightarrow> string" where
  "quoted s = CHR 0x27 # s @ [CHR 0x27]"

section \<open>Errors\<close>

text \<open>
  Go's \<^verbatim>\<open>error\<close> values: what the store answers, what the client itself raises, and
  the wrappers of \<^verbatim>\<open>fmt.Errorf("...: %w", err)\<close>.
\<close>

datatype error =
    NotFound
  | AlreadyExists
  | Conflict
  | Forbidden
  | Unavailable
  | NameRequired
  | YamlError string
  | JsonError string
  | UnknownKind string
  | FailedToParseManifest error
  | FailedToUpdateResource error
  | FailedToCreateResource error
  | FailedToGetModelConfig string error
  | FailedToMarshalToYaml error
  | FailedToUnmarshalToModelConfig error

section \<open>The accessors of the unstructured package\<close>

text \<open>
  The repository reads and writes manifests through
  \<^verbatim>\<open>k8s.io/apimachinery/pkg/apis/meta/v1/unstructured\<close>. \<^verbatim>\<open>NestedFieldNoCopy\<close>
  walks a path: a nil value on the way means not found, a value that is not a map is an
  accessor error.
\<close>

datatype nested = Found jv | Missing | AccessorError

fun NestedFieldNoCopy :: "jv \<Rightarrow> string list \<Rightarrow> nested" where
  "NestedFieldNoCopy val [] = Found val"
| "NestedFieldNoCopy val (field # fields) =
     (case val of
        JNull \<Rightarrow> Missing
      | JObject m \<Rightarrow>
          (case fmlookup m field of
             None \<Rightarrow> Missing
           | Some v \<Rightarrow> NestedFieldNoCopy v fields)
      | _ \<Rightarrow> AccessorError)"

text \<open>
  \<^verbatim>\<open>NestedString\<close> returns the value and the found flag; the callers in this repository
  drop its third result, the error. A value that is not a string gives \<^verbatim>\<open>("", false)\<close>.
\<close>

definition NestedString :: "obj \<Rightarrow> string list \<Rightarrow> string \<times> bool" where
  "NestedString ob fields =
     (case NestedFieldNoCopy (JObject ob) fields of
        Found (JString s) \<Rightarrow> (s, True)
      | Found _ \<Rightarrow> ([], False)
      | Missing \<Rightarrow> ([], False)
      | AccessorError \<Rightarrow> ([], False))"

definition getNestedString :: "obj \<Rightarrow> string list \<Rightarrow> string" where
  "getNestedString ob fields =
     (case NestedString ob fields of (val, found) \<Rightarrow> if \<not> found then [] else val)"

definition GetAPIVersion :: "obj \<Rightarrow> string" where
  "GetAPIVersion ob = getNestedString ob [''apiVersion'']"

definition GetKind :: "obj \<Rightarrow> string" where
  "GetKind ob = getNestedString ob [''kind'']"

definition GetName :: "obj \<Rightarrow> string" where
  "GetName ob = getNestedString ob [''metadata'', ''name'']"

definition GetNamespace :: "obj \<Rightarrow> string" where
  "GetNamespace ob = getNestedString ob [''metadata'', ''namespace'']"

definition GetResourceVersion :: "obj \<Rightarrow> string" where
  "GetResourceVersion ob = getNestedString ob [''metadata'', ''resourceVersion'']"

text \<open>
  \<^verbatim>\<open>RemoveNestedField\<close> deletes the last key of the path and does nothing when a step of
  the path is not a map. The Go mutates in place; the model returns the new tree. (An
  empty path panics in Go and is never passed.)
\<close>

fun RemoveNestedField :: "obj \<Rightarrow> string list \<Rightarrow> obj" where
  "RemoveNestedField m [] = m"
| "RemoveNestedField m [field] = fmdrop field m"
| "RemoveNestedField m (field # fields) =
     (case fmlookup m field of
        Some (JObject x) \<Rightarrow> fmupd field (JObject (RemoveNestedField x fields)) m
      | _ \<Rightarrow> m)"

text \<open>
  \<^verbatim>\<open>SetNestedField\<close> creates the missing maps of the path and fails, changing nothing,
  when a step exists and is not a map; the setters below drop that error.
\<close>

fun setNestedField :: "obj \<Rightarrow> jv \<Rightarrow> string list \<Rightarrow> obj" where
  "setNestedField m v [] = m"
| "setNestedField m v [field] = fmupd field v m"
| "setNestedField m v (field # fields) =
     (case fmlookup m field of
        Some (JObject x) \<Rightarrow> fmupd field (JObject (setNestedField x v fields)) m
      | Some _ \<Rightarrow> m
      | None \<Rightarrow> fmupd field (JObject (setNestedField fmempty v fields)) m)"

definition SetNamespace :: "obj \<Rightarrow> string \<Rightarrow> obj" where
  "SetNamespace ob ns =
     (if ns = [] then RemoveNestedField ob [''metadata'', ''namespace'']
      else setNestedField ob (JString ns) [''metadata'', ''namespace''])"

definition SetResourceVersion :: "obj \<Rightarrow> string \<Rightarrow> obj" where
  "SetResourceVersion ob rv =
     (if rv = [] then RemoveNestedField ob [''metadata'', ''resourceVersion'']
      else setNestedField ob (JString rv) [''metadata'', ''resourceVersion''])"

section \<open>The store and the client\<close>

datatype GroupVersionResource =
  GroupVersionResource (Group: string) (Version: string) (Resource: string)

definition AgentGVR :: GroupVersionResource where
  "AgentGVR = GroupVersionResource ''kagent.dev'' ''v1alpha2'' ''agents''"

definition ModelConfigGVR :: GroupVersionResource where
  "ModelConfigGVR = GroupVersionResource ''kagent.dev'' ''v1alpha2'' ''modelconfigs''"

definition MCPServerGVR :: GroupVersionResource where
  "MCPServerGVR = GroupVersionResource ''kagent.dev'' ''v1alpha1'' ''mcpservers''"

definition RemoteMCPServerGVR :: GroupVersionResource where
  "RemoteMCPServerGVR = GroupVersionResource ''kagent.dev'' ''v1alpha2'' ''remotemcpservers''"

definition gvrFromKind :: "string \<Rightarrow> error + GroupVersionResource" where
  "gvrFromKind kind =
     (if kind = ''Agent'' then Inr AgentGVR
      else if kind = ''ModelConfig'' then Inr ModelConfigGVR
      else if kind = ''MCPServer'' then Inr MCPServerGVR
      else if kind = ''RemoteMCPServer'' then Inr RemoteMCPServerGVR
      else Inl (UnknownKind kind))"

definition gvrFromObject :: "obj \<Rightarrow> error + GroupVersionResource" where
  "gvrFromObject ob = gvrFromKind (GetKind ob)"

text \<open>
  The dynamic client is the external store, a parameter of the model: any state type
  \<open>'s\<close>, a read that answers with a tree or an error, and two writes that take the
  dry-run flag of their options and return the answer with the next state.
  \<^verbatim>\<open>Resource(gvr).Namespace(ns).Get(ctx, name, ...)\<close> is \<open>Get d s gvr ns name\<close>.
\<close>

record 's dynamic_Interface =
  Get :: "'s \<Rightarrow> GroupVersionResource \<Rightarrow> string \<Rightarrow> string \<Rightarrow> error + obj"
  Create :: "'s \<Rightarrow> GroupVersionResource \<Rightarrow> string \<Rightarrow> obj \<Rightarrow> bool \<Rightarrow> (error + obj) \<times> 's"
  Update :: "'s \<Rightarrow> GroupVersionResource \<Rightarrow> string \<Rightarrow> obj \<Rightarrow> bool \<Rightarrow> (error + obj) \<times> 's"

text \<open>
  The text codecs are parameters too: \<^verbatim>\<open>yaml.Unmarshal\<close> and \<^verbatim>\<open>yaml.Marshal\<close> of
  sigs.k8s.io/yaml, and the typed decoding of a tree into \<^verbatim>\<open>types.ModelConfig\<close> by
  encoding/json (\<^verbatim>\<open>unstructuredToModelConfig\<close>).
\<close>

record codecs =
  Unmarshal :: "string \<Rightarrow> error + obj"
  Marshal :: "obj \<Rightarrow> error + string"
  unstructuredToModelConfig :: "obj \<Rightarrow> error + obj"

record 's Client =
  dynamicClient :: "'s dynamic_Interface"
  namespace :: string

definition GetModelConfig :: "codecs \<Rightarrow> 's Client \<Rightarrow> 's \<Rightarrow> string \<Rightarrow> error + obj" where
  "GetModelConfig y c s name =
     (case Get (dynamicClient c) s ModelConfigGVR (namespace c) name of
        Inl err \<Rightarrow> Inl (FailedToGetModelConfig name err)
      | Inr ob \<Rightarrow> unstructuredToModelConfig y ob)"

section \<open>The validator\<close>

record ValidationIssue =
  Severity :: string
  Field' :: string
  Message :: string

definition validateAgent :: "codecs \<Rightarrow> 's Client \<Rightarrow> 's \<Rightarrow> obj \<Rightarrow> bool \<Rightarrow> ValidationIssue list" where
  "validateAgent y c s ob strict =
     (let specType = fst (NestedString ob [''spec'', ''type'']);
          found = snd (NestedString ob [''spec'', ''type''])
      in
        (if \<not> found \<or> specType = [] then
           [\<lparr>Severity = ''error'', Field' = ''spec.type'',
             Message = ''spec.type is required (should be 'Declarative' or 'BYO')''\<rparr>]
         else [])
        @
        (if specType = ''Declarative'' then
           (let modelConfig = fst (NestedString ob [''spec'', ''declarative'', ''modelConfig'']);
                found = snd (NestedString ob [''spec'', ''declarative'', ''modelConfig''])
            in
              if \<not> found \<or> modelConfig = [] then
                [\<lparr>Severity = ''error'', Field' = ''spec.declarative.modelConfig'',
                  Message = ''spec.declarative.modelConfig is required for Declarative agents''\<rparr>]
              else
                (case GetModelConfig y c s modelConfig of
                   Inl err \<Rightarrow>
                     [\<lparr>Severity = ''warning'', Field' = ''spec.declarative.modelConfig'',
                       Message = ''ModelConfig '' @ quoted modelConfig @
                         '' not found in namespace. Ensure it exists before applying.''\<rparr>]
                 | Inr _ \<Rightarrow> []))
           @
           (let systemMessage = fst (NestedString ob [''spec'', ''declarative'', ''systemMessage'']);
                found = snd (NestedString ob [''spec'', ''declarative'', ''systemMessage''])
            in
              if \<not> found \<or> systemMessage = [] then
                [\<lparr>Severity = ''error'', Field' = ''spec.declarative.systemMessage'',
                  Message = ''spec.declarative.systemMessage is required for Declarative agents''\<rparr>]
              else if strict \<and> length systemMessage < 100 then
                [\<lparr>Severity = ''warning'', Field' = ''spec.declarative.systemMessage'',
                  Message = ''System message seems short. Consider providing more detailed instructions for the agent.''\<rparr>]
              else [])
         else [])
        @
        (if strict then
           (let description = fst (NestedString ob [''spec'', ''description''])
            in
              if description = [] then
                [\<lparr>Severity = ''warning'', Field' = ''spec.description'',
                  Message = ''Consider adding a description to help users understand the agent'' @
                    [CHR 0x27] @ ''s purpose''\<rparr>]
              else [])
         else []))"

definition validProviders :: "string \<Rightarrow> bool" where
  "validProviders p \<longleftrightarrow>
     p = ''OpenAI'' \<or> p = ''AzureOpenAI'' \<or> p = ''Anthropic'' \<or>
     p = ''Gemini'' \<or> p = ''Ollama'' \<or> p = ''Custom''"

definition validateModelConfig :: "obj \<Rightarrow> bool \<Rightarrow> ValidationIssue list" where
  "validateModelConfig ob strict =
     (let provider = fst (NestedString ob [''spec'', ''provider'']);
          found = snd (NestedString ob [''spec'', ''provider''])
      in
        (if \<not> found \<or> provider = [] then
           [\<lparr>Severity = ''error'', Field' = ''spec.provider'',
             Message = ''spec.provider is required''\<rparr>]
         else if \<not> validProviders provider then
           [\<lparr>Severity = ''error'', Field' = ''spec.provider'',
             Message = ''Invalid provider '' @ quoted provider @
               ''. Must be one of: OpenAI, AzureOpenAI, Anthropic, Gemini, Ollama, Custom''\<rparr>]
         else [])
        @
        (let model = fst (NestedString ob [''spec'', ''model'']);
             found = snd (NestedString ob [''spec'', ''model''])
         in
           if \<not> found \<or> model = [] then
             [\<lparr>Severity = ''error'', Field' = ''spec.model'',
               Message = ''spec.model is required''\<rparr>]
           else [])
        @
        (let apiKeySecret = fst (NestedString ob [''spec'', ''apiKeySecret'']);
             found = snd (NestedString ob [''spec'', ''apiKeySecret''])
         in
           if (\<not> found \<or> apiKeySecret = []) \<and> provider \<noteq> ''Ollama'' then
             [\<lparr>Severity = ''error'', Field' = ''spec.apiKeySecret'',
               Message = ''spec.apiKeySecret is required for non-Ollama providers''\<rparr>]
           else []))"

definition validateMCPServer :: "obj \<Rightarrow> bool \<Rightarrow> ValidationIssue list" where
  "validateMCPServer ob strict =
     (let image = fst (NestedString ob [''spec'', ''deployment'', ''image'']);
          found = snd (NestedString ob [''spec'', ''deployment'', ''image''])
      in
        (if \<not> found \<or> image = [] then
           [\<lparr>Severity = ''error'', Field' = ''spec.deployment.image'',
             Message = ''spec.deployment.image is required for MCPServer''\<rparr>]
         else [])
        @
        (let transportType = fst (NestedString ob [''spec'', ''transportType''])
         in
           if transportType \<noteq> [] \<and> transportType \<noteq> ''stdio'' then
             [\<lparr>Severity = ''warning'', Field' = ''spec.transportType'',
               Message = ''Unexpected transportType '' @ quoted transportType @
                 ''. MCPServer typically uses '' @ quoted ''stdio''\<rparr>]
           else []))"

definition HasPrefix :: "string \<Rightarrow> string \<Rightarrow> bool" where
  "HasPrefix s p \<longleftrightarrow> take (length p) s = p"

definition validateRemoteMCPServer :: "obj \<Rightarrow> bool \<Rightarrow> ValidationIssue list" where
  "validateRemoteMCPServer ob strict =
     (let url = fst (NestedString ob [''spec'', ''url'']);
          found = snd (NestedString ob [''spec'', ''url''])
      in
        (if \<not> found \<or> url = [] then
           [\<lparr>Severity = ''error'', Field' = ''spec.url'',
             Message = ''spec.url is required for RemoteMCPServer''\<rparr>]
         else if \<not> HasPrefix url ''http://'' \<and> \<not> HasPrefix url ''https://'' then
           [\<lparr>Severity = ''error'', Field' = ''spec.url'',
             Message = ''spec.url must start with http:// or https://''\<rparr>]
         else [])
        @
        (let protocol = fst (NestedString ob [''spec'', ''protocol''])
         in
           if protocol \<noteq> [] \<and> protocol \<noteq> ''STREAMABLE_HTTP'' \<and> protocol \<noteq> ''SSE'' then
             [\<lparr>Severity = ''error'', Field' = ''spec.protocol'',
               Message = ''spec.protocol must be '' @ quoted ''STREAMABLE_HTTP'' @ '' or '' @
                 quoted ''SSE''\<rparr>]
           else []))"

text \<open>
  The issue list that \<^verbatim>\<open>handleValidateManifest\<close> builds from the decoded manifest: the
  three basic checks, then the switch on the kind.
\<close>

definition validationIssues ::
  "codecs \<Rightarrow> 's Client \<Rightarrow> 's \<Rightarrow> obj \<Rightarrow> bool \<Rightarrow> ValidationIssue list" where
  "validationIssues y c s ob strict =
     (if GetAPIVersion ob = [] then
        [\<lparr>Severity = ''error'', Field' = ''apiVersion'', Message = ''apiVersion is required''\<rparr>]
      else [])
     @
     (if GetKind ob = [] then
        [\<lparr>Severity = ''error'', Field' = ''kind'', Message = ''kind is required''\<rparr>]
      else [])
     @
     (if GetName ob = [] then
        [\<lparr>Severity = ''error'', Field' = ''metadata.name'',
          Message = ''metadata.name is required''\<rparr>]
      else [])
     @
     (if GetKind ob = ''Agent'' then validateAgent y c s ob strict
      else if GetKind ob = ''ModelConfig'' then validateModelConfig ob strict
      else if GetKind ob = ''MCPServer'' then validateMCPServer ob strict
      else if GetKind ob = ''RemoteMCPServer'' then validateRemoteMCPServer ob strict
      else
        [\<lparr>Severity = ''warning'', Field' = ''kind'',
          Message = ''Unknown kind '' @ quoted (GetKind ob) @
            ''. Expected: Agent, ModelConfig, MCPServer, or RemoteMCPServer''\<rparr>])"

section \<open>The reconciler\<close>

record ApplyResult =
  Action :: string
  Kind :: string
  Name :: string
  Namespace :: string
  DryRun :: bool

text \<open>The calls a client operation makes on the store, in order, with their arguments.\<close>

datatype call =
    GetCall GroupVersionResource string string
  | CreateCall GroupVersionResource string obj bool
  | UpdateCall GroupVersionResource string obj bool

text \<open>
  \<^verbatim>\<open>Client.Apply\<close> returns its result, the store calls it made and the store's next
  state. The dry-run flag of the create and update options is the flag of the call.
\<close>

definition Apply ::
  "codecs \<Rightarrow> 's Client \<Rightarrow> 's \<Rightarrow> string \<Rightarrow> bool \<Rightarrow> (error + ApplyResult) \<times> call list \<times> 's" where
  "Apply y c s manifest dryRun =
     (case Unmarshal y manifest of
        Inl err \<Rightarrow> (Inl (FailedToParseManifest err), [], s)
      | Inr parsed \<Rightarrow>
     (case gvrFromObject parsed of
        Inl err \<Rightarrow> (Inl err, [], s)
      | Inr gvr \<Rightarrow>
     (let ob = (if GetNamespace parsed = [] then SetNamespace parsed (namespace c) else parsed)
      in
        case Get (dynamicClient c) s gvr (GetNamespace ob) (GetName ob) of
          Inr existing \<Rightarrow>
            (let ob' = SetResourceVersion ob (GetResourceVersion existing);
                 calls = [GetCall gvr (GetNamespace ob) (GetName ob),
                          UpdateCall gvr (GetNamespace ob') ob' dryRun]
             in
               case Update (dynamicClient c) s gvr (GetNamespace ob') ob' dryRun of
                 (Inl err, s') \<Rightarrow> (Inl (FailedToUpdateResource err), calls, s')
               | (Inr _, s') \<Rightarrow>
                   (Inr \<lparr>Action = ''updated'', Kind = GetKind ob', Name = GetName ob',
                         Namespace = GetNamespace ob', DryRun = dryRun\<rparr>, calls, s'))
        | Inl _ \<Rightarrow>
            (let calls = [GetCall gvr (GetNamespace ob) (GetName ob),
                          CreateCall gvr (GetNamespace ob) ob dryRun]
             in
               case Create (dynamicClient c) s gvr (GetNamespace ob) ob dryRun of
                 (Inl err, s') \<Rightarrow> (Inl (FailedToCreateResource err), calls, s')
               | (Inr _, s') \<Rightarrow>
                   (Inr \<lparr>Action = ''created'', Kind = GetKind ob, Name = GetName ob,
                         Namespace = GetNamespace ob, DryRun = dryRun\<rparr>, calls, s')))))"

text \<open>
  \<^verbatim>\<open>Client.GetCurrentState\<close>: the fetch, in the client's own namespace, then the removal
  of the server-managed fields (\<open>stripServerManaged\<close>: the \<^verbatim>\<open>delete\<close> of status and the
  five \<^verbatim>\<open>RemoveNestedField\<close> calls, in the order of the source), then the YAML text. It
  returns the call it made as well.
\<close>

definition stripServerManaged :: "obj \<Rightarrow> obj" where
  "stripServerManaged ob =
     RemoveNestedField
       (RemoveNestedField
         (RemoveNestedField
           (RemoveNestedField
             (RemoveNestedField (fmdrop ''status'' ob) [''metadata'', ''creationTimestamp''])
             [''metadata'', ''generation''])
           [''metadata'', ''resourceVersion''])
         [''metadata'', ''uid''])
       [''metadata'', ''managedFields'']"

definition GetCurrentState ::
  "codecs \<Rightarrow> 's Client \<Rightarrow> 's \<Rightarrow> string \<Rightarrow> string \<Rightarrow> (error + string) \<times> call list" where
  "GetCurrentState y c s kind name =
     (case gvrFromKind kind of
        Inl err \<Rightarrow> (Inl err, [])
      | Inr gvr \<Rightarrow>
     (case Get (dynamicClient c) s gvr (namespace c) name of
        Inl err \<Rightarrow> (Inl err, [GetCall gvr (namespace c) name])
      | Inr ob \<Rightarrow>
     (case Marshal y (stripServerManaged ob) of
        Inl err \<Rightarrow> (Inl (FailedToMarshalToYaml err), [GetCall gvr (namespace c) name])
      | Inr yamlBytes \<Rightarrow> (Inr yamlBytes, [GetCall gvr (namespace c) name]))))"

section \<open>The tool handlers\<close>

text \<open>
  A handler answers with text. The model keeps the payload the text is formatted from:
  which message it is and the values printed into it. \<open>DiffText kind name x y\<close> stands
  for the report that prints \<^verbatim>\<open>cmp.Diff(x, y)\<close>.
\<close>

datatype CallToolResult =
    ManifestIsRequired
  | FailedToParseManifestText error
  | FailedToParseCurrentState error
  | ValidationPassed
  | ValidationResults "ValidationIssue list" bool
  | NewResource string string string
  | NoChangesDetected string string
  | DiffText string string obj obj
  | FailedToApplyManifest error
  | DryRunSuccessful ApplyResult
  | SuccessfullyApplied ApplyResult

text \<open>
  The arguments arrive as a map; a missing or ill-typed \<^verbatim>\<open>manifest\<close> reads as the
  empty string, and a missing or ill-typed flag as \<open>None\<close>.
\<close>

definition handleValidateManifest ::
  "codecs \<Rightarrow> 's Client \<Rightarrow> 's \<Rightarrow> string \<Rightarrow> bool option \<Rightarrow> CallToolResult" where
  "handleValidateManifest y c s manifest strictArg =
     (if manifest = [] then ManifestIsRequired
      else
        (let strict = (case strictArg of Some v \<Rightarrow> v | None \<Rightarrow> True)
         in
           case Unmarshal y manifest of
             Inl err \<Rightarrow> FailedToParseManifestText err
           | Inr ob \<Rightarrow>
               (let issues = validationIssues y c s ob strict
                in
                  if length issues = 0 then ValidationPassed
                  else ValidationResults issues
                         (list_ex (\<lambda>issue. Severity issue = ''error'') issues))))"

text \<open>
  \<^verbatim>\<open>handleDiffManifest\<close> copies every top-level key of the proposed manifest but
  \<^verbatim>\<open>status\<close>, and compares the copy with the parsed current state. It returns the store
  calls next to its answer.
\<close>

definition handleDiffManifest ::
  "codecs \<Rightarrow> 's Client \<Rightarrow> 's \<Rightarrow> string \<Rightarrow> CallToolResult \<times> call list" where
  "handleDiffManifest y c s manifest =
     (if manifest = [] then (ManifestIsRequired, [])
      else
        case Unmarshal y manifest of
          Inl err \<Rightarrow> (FailedToParseManifestText err, [])
        | Inr ob \<Rightarrow>
            (let name = GetName ob;
                 kind = GetKind ob
             in
               case GetCurrentState y c s kind name of
                 (Inl err, calls) \<Rightarrow> (NewResource kind name manifest, calls)
               | (Inr currentYAML, calls) \<Rightarrow>
                   (case Unmarshal y currentYAML of
                      Inl err \<Rightarrow> (FailedToParseCurrentState err, calls)
                    | Inr currentObj \<Rightarrow>
                        (let proposedClean = fmdrop ''status'' ob
                         in
                           if currentObj = proposedClean then (NoChangesDetected kind name, calls)
                           else (DiffText kind name currentObj proposedClean, calls)))))"

definition handleApplyManifest ::
  "codecs \<Rightarrow> 's Client \<Rightarrow> 's \<Rightarrow> string \<Rightarrow> bool option \<Rightarrow> CallToolResult \<times> call list \<times> 's" where
  "handleApplyManifest y c s manifest dryRunArg =
     (if manifest = [] then (ManifestIsRequired, [], s)
      else
        (let dryRun = (case dryRunArg of Some v \<Rightarrow> v | None \<Rightarrow> False)
         in
           case Apply y c s manifest dryRun of
             (Inl err, calls, s') \<Rightarrow> (FailedToApplyManifest err, calls, s')
           | (Inr result, calls, s') \<Rightarrow>
               (if dryRun then (DryRunSuccessful result, calls, s')
                else (SuccessfullyApplied result, calls, s'))))"

section \<open>Vocabulary of the properties\<close>

definition isError :: "ValidationIssue \<Rightarrow> bool" where
  "isError issue \<longleftrightarrow> Severity issue = ''error''"

text \<open>The two warnings that \<^verbatim>\<open>validateAgent\<close> raises under \<^verbatim>\<open>strict\<close> only.\<close>

definition shortSystemMessageWarning :: ValidationIssue where
  "shortSystemMessageWarning =
     \<lparr>Severity = ''warning'', Field' = ''spec.declarative.systemMessage'',
      Message = ''System message seems short. Consider providing more detailed instructions for the agent.''\<rparr>"

definition missingDescriptionWarning :: ValidationIssue where
  "missingDescriptionWarning =
     \<lparr>Severity = ''warning'', Field' = ''spec.description'',
      Message = ''Consider adding a description to help users understand the agent'' @
                    [CHR 0x27] @ ''s purpose''\<rparr>"

definition modelConfigNotFoundWarning :: "string \<Rightarrow> ValidationIssue" where
  "modelConfigNotFoundWarning modelConfig =
     \<lparr>Severity = ''warning'', Field' = ''spec.declarative.modelConfig'',
      Message = ''ModelConfig '' @ quoted modelConfig @
        '' not found in namespace. Ensure it exists before applying.''\<rparr>"

definition strictGated :: "ValidationIssue \<Rightarrow> bool" where
  "strictGated issue \<longleftrightarrow>
     issue = shortSystemMessageWarning \<or> issue = missingDescriptionWarning"

definition invalidProviderBogus :: ValidationIssue where
  "invalidProviderBogus =
     \<lparr>Severity = ''error'', Field' = ''spec.provider'',
      Message = ''Invalid provider '' @ quoted ''Bogus'' @
        ''. Must be one of: OpenAI, AzureOpenAI, Anthropic, Gemini, Ollama, Custom''\<rparr>"

definition invalidProtocol :: ValidationIssue where
  "invalidProtocol =
     \<lparr>Severity = ''error'', Field' = ''spec.protocol'',
      Message = ''spec.protocol must be '' @ quoted ''STREAMABLE_HTTP'' @ '' or '' @
        quoted ''SSE''\<rparr>"

text \<open>The dry-run flag of a store call (a read has none), and a call with its flag reset.\<close>

fun dryRunOf :: "call \<Rightarrow> bool option" where
  "dryRunOf (GetCall _ _ _) = None"
| "dryRunOf (CreateCall _ _ _ d) = Some d"
| "dryRunOf (UpdateCall _ _ _ d) = Some d"

fun withDryRun :: "bool \<Rightarrow> call \<Rightarrow> call" where
  "withDryRun d (GetCall g n k) = GetCall g n k"
| "withDryRun d (CreateCall g n ob _) = CreateCall g n ob d"
| "withDryRun d (UpdateCall g n ob _) = UpdateCall g n ob d"

text \<open>
  A manifest carries no server-managed metadata when none of the five fields that
  \<^verbatim>\<open>GetCurrentState\<close> removes is found under its \<^verbatim>\<open>metadata\<close>.
\<close>

definition managedMetadataFields :: "string list" where
  "managedMetadataFields =
     [''creationTimestamp'', ''generation'', ''resourceVersion'', ''uid'', ''managedFields'']"

definition carriesNoManagedMetadata :: "obj \<Rightarrow> bool" where
  "carriesNoManagedMetadata ob \<longleftrightarrow>
     list_all (\<lambda>f. case NestedFieldNoCopy (JObject ob) [''metadata'', f] of
                     Found _ \<Rightarrow> False | _ \<Rightarrow> True)
       managedMetadataFields"

text \<open>
  Stated from the claim's words, not from the code: a tree without its status subtree and
  without the server-managed fields under its metadata. Two trees differ only in status
  or in server-managed metadata fields when they are equal once both are erased so.
\<close>

definition eraseManaged :: "obj \<Rightarrow> obj" where
  "eraseManaged ob =
     fmdrop ''status''
       (case fmlookup ob ''metadata'' of
          Some (JObject m) \<Rightarrow>
            fmupd ''metadata'' (JObject (fmfilter (\<lambda>f. f \<notin> set managedMetadataFields) m)) ob
        | _ \<Rightarrow> ob)"

section \<open>Concrete manifests, stores and codecs\<close>

text \<open>
  A small store that keeps its resources in a list keyed by (resource, namespace, name):
  a read of an unknown key is \<open>NotFound\<close>, a create of a known key is
  \<open>AlreadyExists\<close>, an update carries the resource version of the stored copy or is a
  \<open>Conflict\<close>, and a dry-run write leaves the list as it is. A name is required, as the
  dynamic client requires it for a read and an update.
\<close>

type_synonym mem = "((GroupVersionResource \<times> string \<times> string) \<times> obj) list"

definition memStore :: "mem dynamic_Interface" where
  "memStore =
     \<lparr>Get = (\<lambda>s gvr ns name.
              if name = [] then Inl NameRequired
              else case map_of s (gvr, ns, name) of
                     None \<Rightarrow> Inl NotFound
                   | Some ob \<Rightarrow> Inr ob),
      Create = (\<lambda>s gvr ns ob dryRun.
              case map_of s (gvr, ns, GetName ob) of
                Some _ \<Rightarrow> (Inl AlreadyExists, s)
              | None \<Rightarrow> (Inr ob, if dryRun then s else ((gvr, ns, GetName ob), ob) # s)),
      Update = (\<lambda>s gvr ns ob dryRun.
              if GetName ob = [] then (Inl NameRequired, s)
              else case map_of s (gvr, ns, GetName ob) of
                     None \<Rightarrow> (Inl NotFound, s)
                   | Some cur \<Rightarrow>
                       if GetResourceVersion ob \<noteq> GetResourceVersion cur then (Inl Conflict, s)
                       else (Inr ob, if dryRun then s else ((gvr, ns, GetName ob), ob) # s))\<rparr>"

definition kagentClient :: "mem Client" where
  "kagentClient = \<lparr>dynamicClient = memStore, namespace = ''kagent''\<rparr>"

text \<open>A codec that decodes every text to one given tree.\<close>

definition fixedCodec :: "obj \<Rightarrow> codecs" where
  "fixedCodec ob =
     \<lparr>Unmarshal = (\<lambda>_. Inr ob), Marshal = (\<lambda>_. Inr ''{}''), unstructuredToModelConfig = Inr\<rparr>"

text \<open>The Agent manifest of the end-to-end scenario.\<close>

definition exampleAgent :: obj where
  "exampleAgent = fmap_of_list
     [(''apiVersion'', JString ''kagent.dev/v1alpha2''),
      (''kind'', JString ''Agent''),
      (''metadata'', JObject (fmap_of_list [(''name'', JString ''x'')])),
      (''spec'', JObject (fmap_of_list
         [(''type'', JString ''Declarative''),
          (''declarative'', JObject (fmap_of_list
             [(''modelConfig'', JString ''missing-mc''),
              (''systemMessage'', JString ''short'')]))]))]"

text \<open>
  A codec with two texts: \<^verbatim>\<open>current.yaml\<close> is the text of the current state, every
  other text is the proposed manifest.
\<close>

definition textCodec :: "obj \<Rightarrow> obj \<Rightarrow> codecs" where
  "textCodec proposed current =
     \<lparr>Unmarshal = (\<lambda>t. if t = ''current.yaml'' then Inr current else Inr proposed),
      Marshal = (\<lambda>_. Inr ''current.yaml''),
      unstructuredToModelConfig = Inr\<rparr>"

text \<open>A store whose every read is refused, and whose writes are those of \<open>memStore\<close>.\<close>

definition forbiddenClient :: "mem Client" where
  "forbiddenClient =
     \<lparr>dynamicClient = memStore\<lparr>Get := (\<lambda>_ _ _ _. Inl Forbidden)\<rparr>, namespace = ''kagent''\<rparr>"

text \<open>
  An Agent as a user writes it, the same with a \<^verbatim>\<open>uid\<close> copied into it, the same in
  the namespace \<^verbatim>\<open>prod\<close>, and the copy the store holds of it in \<^verbatim>\<open>kagent\<close>.
\<close>

definition plainAgent :: obj where
  "plainAgent = fmap_of_list
     [(''apiVersion'', JString ''kagent.dev/v1alpha2''),
      (''kind'', JString ''Agent''),
      (''metadata'', JObject (fmap_of_list [(''name'', JString ''x'')])),
      (''spec'', JObject (fmap_of_list [(''type'', JString ''BYO'')]))]"

definition uidAgent :: obj where
  "uidAgent = fmap_of_list
     [(''apiVersion'', JString ''kagent.dev/v1alpha2''),
      (''kind'', JString ''Agent''),
      (''metadata'', JObject (fmap_of_list
         [(''name'', JString ''x''), (''uid'', JString ''u-1'')])),
      (''spec'', JObject (fmap_of_list [(''type'', JString ''BYO'')]))]"

definition prodAgent :: obj where
  "prodAgent = fmap_of_list
     [(''apiVersion'', JString ''kagent.dev/v1alpha2''),
      (''kind'', JString ''Agent''),
      (''metadata'', JObject (fmap_of_list
         [(''name'', JString ''x''), (''namespace'', JString ''prod'')])),
      (''spec'', JObject (fmap_of_list [(''type'', JString ''BYO'')]))]"

definition storedAgent :: obj where
  "storedAgent = fmap_of_list
     [(''apiVersion'', JString ''kagent.dev/v1alpha2''),
      (''kind'', JString ''Agent''),
      (''metadata'', JObject (fmap_of_list
         [(''resourceVersion'', JString ''41''), (''name'', JString ''x''),
          (''uid'', JString ''u-1'')])),
      (''spec'', JObject (fmap_of_list [(''type'', JString ''BYO'')])),
      (''status'', JObject (fmap_of_list [(''ready'', JBool True)]))]"

definition oneAgentStore :: mem where
  "oneAgentStore = [((AgentGVR, ''kagent'', ''x''), storedAgent)]"

text \<open>
  The copy of the plain Agent as a store returns it, with a status and all five
  server-managed metadata fields, and a store that holds it.
\<close>

definition liveAgent :: obj where
  "liveAgent = fmap_of_list
     [(''apiVersion'', JString ''kagent.dev/v1alpha2''),
      (''kind'', JString ''Agent''),
      (''metadata'', JObject (fmap_of_list
         [(''creationTimestamp'', JString ''2025-01-01T00:00:00Z''),
          (''generation'', JNumber 2),
          (''resourceVersion'', JString ''41''),
          (''uid'', JString ''u-1''),
          (''managedFields'', JArray [JObject (fmap_of_list [(''manager'', JString ''kubectl'')])]),
          (''name'', JString ''x'')])),
      (''spec'', JObject (fmap_of_list [(''type'', JString ''BYO'')])),
      (''status'', JObject (fmap_of_list [(''ready'', JBool True)]))]"

definition liveStore :: mem where
  "liveStore = [((AgentGVR, ''kagent'', ''x''), liveAgent)]"

definition bogusModelConfig :: obj where
  "bogusModelConfig = fmap_of_list
     [(''apiVersion'', JString ''kagent.dev/v1alpha2''),
      (''kind'', JString ''ModelConfig''),
      (''metadata'', JObject (fmap_of_list [(''name'', JString ''mc'')])),
      (''spec'', JObject (fmap_of_list
         [(''provider'', JString ''Bogus''),
          (''model'', JString ''gpt-4''),
          (''apiKeySecret'', JString ''openai-key'')]))]"

definition wsRemoteServer :: obj where
  "wsRemoteServer = fmap_of_list
     [(''apiVersion'', JString ''kagent.dev/v1alpha2''),
      (''kind'', JString ''RemoteMCPServer''),
      (''metadata'', JObject (fmap_of_list [(''name'', JString ''remote'')])),
      (''spec'', JObject (fmap_of_list
         [(''url'', JString ''https://mcp.example.com''),
          (''protocol'', JString ''WS'')]))]"

definition deploymentManifest :: obj where
  "deploymentManifest = fmap_of_list
     [(''apiVersion'', JString ''apps/v1''),
      (''kind'', JString ''Deployment''),
      (''metadata'', JObject (fmap_of_list [(''name'', JString ''web'')]))]"

definition kindlessManifest :: obj where
  "kindlessManifest = fmap_of_list
     [(''apiVersion'', JString ''kagent.dev/v1alpha2''),
      (''metadata'', JObject (fmap_of_list [(''name'', JString ''x'')]))]"

section \<open>Validation of the scenario manifest\<close>

lemma exampleAgent_fields:
  "GetAPIVersion exampleAgent = ''kagent.dev/v1alpha2''"
  "GetKind exampleAgent = ''Agent''"
  "GetName exampleAgent = ''x''"
  "NestedString exampleAgent [''spec'', ''type''] = (''Declarative'', True)"
  "NestedString exampleAgent [''spec'', ''declarative'', ''modelConfig''] = (''missing-mc'', True)"
  "NestedString exampleAgent [''spec'', ''declarative'', ''systemMessage''] = (''short'', True)"
  "NestedString exampleAgent [''spec'', ''description''] = ([], False)"
  by (simp_all add: exampleAgent_def GetAPIVersion_def GetKind_def GetName_def
        getNestedString_def NestedString_def)

text \<open>
  Claim C4. The scenario manifest (apiVersion kagent.dev/v1alpha2, kind Agent, name x,
  type Declarative, modelConfig missing-mc, systemMessage short), validated with
  strict=true (given, or by default) while the lookup of the ModelConfig missing-mc fails,
  gives three issues,
  all warnings and no error: the model config is not found, the system message is
  short, the description is missing; so the report is not flagged as having errors.
\<close>

theorem scenario_three_warnings:
  assumes "manifest \<noteq> []"
    and "Unmarshal y manifest = Inr exampleAgent"
    and "GetModelConfig y c s ''missing-mc'' = Inl e"
    and "strictArg = Some True \<or> strictArg = None"
  shows "handleValidateManifest y c s manifest strictArg =
     ValidationResults
       [\<lparr>Severity = ''warning'', Field' = ''spec.declarative.modelConfig'',
          Message = ''ModelConfig '' @ quoted ''missing-mc'' @
            '' not found in namespace. Ensure it exists before applying.''\<rparr>,
        \<lparr>Severity = ''warning'', Field' = ''spec.declarative.systemMessage'',
          Message = ''System message seems short. Consider providing more detailed instructions for the agent.''\<rparr>,
        \<lparr>Severity = ''warning'', Field' = ''spec.description'',
          Message = ''Consider adding a description to help users understand the agent'' @
                    [CHR 0x27] @ ''s purpose''\<rparr>]
       False"
  using assms
  by (auto simp add: handleValidateManifest_def validationIssues_def validateAgent_def
        exampleAgent_fields)

theorem scenario_three_warnings_witness:
  "''agent.yaml'' \<noteq> [] \<and>
   Unmarshal (fixedCodec exampleAgent) ''agent.yaml'' = Inr exampleAgent \<and>
   GetModelConfig (fixedCodec exampleAgent) kagentClient [] ''missing-mc'' =
     Inl (FailedToGetModelConfig ''missing-mc'' NotFound) \<and>
   handleValidateManifest (fixedCodec exampleAgent) kagentClient [] ''agent.yaml'' (Some True) =
     ValidationResults
       [\<lparr>Severity = ''warning'', Field' = ''spec.declarative.modelConfig'',
          Message = ''ModelConfig '' @ quoted ''missing-mc'' @
            '' not found in namespace. Ensure it exists before applying.''\<rparr>,
        \<lparr>Severity = ''warning'', Field' = ''spec.declarative.systemMessage'',
          Message = ''System message seems short. Consider providing more detailed instructions for the agent.''\<rparr>,
        \<lparr>Severity = ''warning'', Field' = ''spec.description'',
          Message = ''Consider adding a description to help users understand the agent'' @
                    [CHR 0x27] @ ''s purpose''\<rparr>]
       False"
proof -
  have h1: "''agent.yaml'' \<noteq> []" by simp
  have h2: "Unmarshal (fixedCodec exampleAgent) ''agent.yaml'' = Inr exampleAgent"
    by (simp add: fixedCodec_def)
  have h3: "GetModelConfig (fixedCodec exampleAgent) kagentClient [] ''missing-mc'' =
      Inl (FailedToGetModelConfig ''missing-mc'' NotFound)"
    by (simp add: GetModelConfig_def kagentClient_def memStore_def)
  show ?thesis
    using h1 h2 h3 scenario_three_warnings [OF h1 h2 h3, of "Some True"] by simp
qed

section \<open>Strictness only adds warnings\<close>

lemma validateAgent_strict:
  "validateAgent y c s ob False = filter (\<lambda>i. \<not> strictGated i) (validateAgent y c s ob True)"
  by (simp add: validateAgent_def Let_def strictGated_def shortSystemMessageWarning_def
        missingDescriptionWarning_def split: sum.splits)

lemma validateModelConfig_strict:
  "validateModelConfig ob strict = filter (\<lambda>i. \<not> strictGated i) (validateModelConfig ob True)"
  by (simp add: validateModelConfig_def Let_def strictGated_def shortSystemMessageWarning_def
        missingDescriptionWarning_def)

lemma validateMCPServer_strict:
  "validateMCPServer ob strict = filter (\<lambda>i. \<not> strictGated i) (validateMCPServer ob True)"
  by (simp add: validateMCPServer_def Let_def strictGated_def shortSystemMessageWarning_def
        missingDescriptionWarning_def)

lemma validateRemoteMCPServer_strict:
  "validateRemoteMCPServer ob strict =
     filter (\<lambda>i. \<not> strictGated i) (validateRemoteMCPServer ob True)"
  by (simp add: validateRemoteMCPServer_def Let_def strictGated_def
        shortSystemMessageWarning_def missingDescriptionWarning_def)

lemma validationIssues_strict:
  "validationIssues y c s ob False =
     filter (\<lambda>i. \<not> strictGated i) (validationIssues y c s ob True)"
  unfolding validationIssues_def filter_append
  using validateAgent_strict [of y c s ob] validateModelConfig_strict [of ob False]
    validateMCPServer_strict [of ob False] validateRemoteMCPServer_strict [of ob False]
  by (simp add: strictGated_def shortSystemMessageWarning_def missingDescriptionWarning_def)

lemma strictGated_not_error: "strictGated i \<Longrightarrow> \<not> isError i"
  by (auto simp: strictGated_def isError_def shortSystemMessageWarning_def
        missingDescriptionWarning_def)

text \<open>
  Claim C5. For every manifest and store state, the issues of a validation with
  strict=false are those of the validation with strict=true without the strict-gated
  warnings (the short system message and the missing description) and in the same order:
  nothing appears at strict=false only, every error stays, and what disappears is exactly
  the strict-gated warnings, which are warnings.
\<close>

theorem strict_false_is_strict_true_without_gated_warnings:
  "validationIssues y c s ob False =
     filter (\<lambda>i. \<not> strictGated i) (validationIssues y c s ob True)
   \<and> set (validationIssues y c s ob False) \<subseteq> set (validationIssues y c s ob True)
   \<and> filter isError (validationIssues y c s ob False) =
       filter isError (validationIssues y c s ob True)
   \<and> (\<forall>i. strictGated i \<longrightarrow> Severity i = ''warning'')"
proof -
  have a: "validationIssues y c s ob False =
     filter (\<lambda>i. \<not> strictGated i) (validationIssues y c s ob True)"
    by (rule validationIssues_strict)
  have b: "set (validationIssues y c s ob False) \<subseteq> set (validationIssues y c s ob True)"
    by (subst a) auto
  have c: "filter isError (validationIssues y c s ob False) =
      filter isError (validationIssues y c s ob True)"
    by (subst a) (auto simp: strictGated_not_error intro: filter_cong)
  have d: "\<forall>i. strictGated i \<longrightarrow> Severity i = ''warning''"
    by (auto simp: strictGated_def shortSystemMessageWarning_def missingDescriptionWarning_def)
  from a b c d show ?thesis by blast
qed

lemma exampleAgent_strict_issues:
  "validationIssues (fixedCodec exampleAgent) kagentClient [] exampleAgent True =
     [modelConfigNotFoundWarning ''missing-mc'', shortSystemMessageWarning,
      missingDescriptionWarning]"
  by (simp add: validationIssues_def validateAgent_def exampleAgent_fields GetModelConfig_def
        kagentClient_def memStore_def shortSystemMessageWarning_def missingDescriptionWarning_def
        modelConfigNotFoundWarning_def)

lemma modelConfigNotFoundWarning_not_gated: "\<not> strictGated (modelConfigNotFoundWarning name)"
  unfolding strictGated_def shortSystemMessageWarning_def missingDescriptionWarning_def
    modelConfigNotFoundWarning_def
  by simp

theorem strict_false_is_strict_true_without_gated_warnings_witness:
  "validationIssues (fixedCodec exampleAgent) kagentClient [] exampleAgent False =
     [modelConfigNotFoundWarning ''missing-mc'']
   \<and> filter isError
       (validationIssues (fixedCodec exampleAgent) kagentClient [] exampleAgent False) = []"
proof -
  have t: "validationIssues (fixedCodec exampleAgent) kagentClient [] exampleAgent False =
       filter (\<lambda>i. \<not> strictGated i)
         (validationIssues (fixedCodec exampleAgent) kagentClient [] exampleAgent True)"
    using strict_false_is_strict_true_without_gated_warnings
      [of "fixedCodec exampleAgent" kagentClient "[]" exampleAgent]
    by blast
  have g: "strictGated shortSystemMessageWarning" "strictGated missingDescriptionWarning"
    by (simp_all add: strictGated_def)
  have f: "validationIssues (fixedCodec exampleAgent) kagentClient [] exampleAgent False =
     [modelConfigNotFoundWarning ''missing-mc'']"
    by (simp add: t exampleAgent_strict_issues g modelConfigNotFoundWarning_not_gated)
  have "\<not> isError (modelConfigNotFoundWarning ''missing-mc'')"
    by (simp add: isError_def modelConfigNotFoundWarning_def)
  with f show ?thesis by simp
qed

section \<open>Rejected enumeration values\<close>

text \<open>
  Claim C6. A ModelConfig whose spec.provider is "Bogus", with spec.model and
  spec.apiKeySecret present, gets exactly one issue from its rule set, the error on
  spec.provider, and that is the only error on spec.provider of the whole validation (and
  the whole issue list when apiVersion and metadata.name are present too). A
  RemoteMCPServer whose spec.protocol is "WS", with a well-formed spec.url, gets exactly
  one issue, the error on spec.protocol, likewise.
\<close>

theorem enum_rejection:
  assumes "GetKind m = ''ModelConfig''"
    and "NestedString m [''spec'', ''provider''] = (''Bogus'', True)"
    and "fst (NestedString m [''spec'', ''model'']) \<noteq> []"
    and "fst (NestedString m [''spec'', ''apiKeySecret'']) \<noteq> []"
    and "GetKind r = ''RemoteMCPServer''"
    and "NestedString r [''spec'', ''protocol''] = (''WS'', True)"
    and "snd (NestedString r [''spec'', ''url''])"
    and "HasPrefix (fst (NestedString r [''spec'', ''url''])) ''http://'' \<or>
         HasPrefix (fst (NestedString r [''spec'', ''url''])) ''https://''"
  shows "validateModelConfig m strict = [invalidProviderBogus]
       \<and> filter (\<lambda>i. isError i \<and> Field' i = ''spec.provider'')
           (validationIssues y c s m strict) = [invalidProviderBogus]
       \<and> (GetAPIVersion m \<noteq> [] \<and> GetName m \<noteq> [] \<longrightarrow>
            validationIssues y c s m strict = [invalidProviderBogus])
       \<and> validateRemoteMCPServer r strict = [invalidProtocol]
       \<and> filter (\<lambda>i. isError i \<and> Field' i = ''spec.protocol'')
           (validationIssues y c s r strict) = [invalidProtocol]
       \<and> (GetAPIVersion r \<noteq> [] \<and> GetName r \<noteq> [] \<longrightarrow>
            validationIssues y c s r strict = [invalidProtocol])"
proof -
  have m1: "validateModelConfig m strict = [invalidProviderBogus]"
    using assms(2,3,4)
    by (cases "NestedString m [''spec'', ''model'']";
        cases "NestedString m [''spec'', ''apiKeySecret'']")
       (auto simp add: validateModelConfig_def Let_def validProviders_def
          invalidProviderBogus_def NestedString_def split: nested.splits jv.splits)
  have m2: "filter (\<lambda>i. isError i \<and> Field' i = ''spec.provider'')
      (validationIssues y c s m strict) = [invalidProviderBogus]"
    using assms(1) by (simp add: validationIssues_def m1 isError_def invalidProviderBogus_def)
  have m3: "validationIssues y c s m strict = [invalidProviderBogus]"
    if "GetAPIVersion m \<noteq> [] \<and> GetName m \<noteq> []"
    using assms(1) that by (simp add: validationIssues_def m1)
  have url: "fst (NestedString r [''spec'', ''url'']) \<noteq> []"
    using assms(8) by (auto simp: HasPrefix_def)
  have r1: "validateRemoteMCPServer r strict = [invalidProtocol]"
    using assms(6,7,8) url
    by (auto simp add: validateRemoteMCPServer_def Let_def invalidProtocol_def)
  have r2: "filter (\<lambda>i. isError i \<and> Field' i = ''spec.protocol'')
      (validationIssues y c s r strict) = [invalidProtocol]"
    using assms(5) by (simp add: validationIssues_def r1 isError_def invalidProtocol_def)
  have r3: "validationIssues y c s r strict = [invalidProtocol]"
    if "GetAPIVersion r \<noteq> [] \<and> GetName r \<noteq> []"
    using assms(5) that by (simp add: validationIssues_def r1)
  show ?thesis using m1 m2 m3 r1 r2 r3 by blast
qed

lemma bogusModelConfig_fields:
  "GetAPIVersion bogusModelConfig = ''kagent.dev/v1alpha2''"
  "GetKind bogusModelConfig = ''ModelConfig''"
  "GetName bogusModelConfig = ''mc''"
  "NestedString bogusModelConfig [''spec'', ''provider''] = (''Bogus'', True)"
  "NestedString bogusModelConfig [''spec'', ''model''] = (''gpt-4'', True)"
  "NestedString bogusModelConfig [''spec'', ''apiKeySecret''] = (''openai-key'', True)"
  by (simp_all add: bogusModelConfig_def GetAPIVersion_def GetKind_def GetName_def
        getNestedString_def NestedString_def)

lemma wsRemoteServer_fields:
  "GetAPIVersion wsRemoteServer = ''kagent.dev/v1alpha2''"
  "GetKind wsRemoteServer = ''RemoteMCPServer''"
  "GetName wsRemoteServer = ''remote''"
  "NestedString wsRemoteServer [''spec'', ''protocol''] = (''WS'', True)"
  "NestedString wsRemoteServer [''spec'', ''url''] = (''https://mcp.example.com'', True)"
  by (simp_all add: wsRemoteServer_def GetAPIVersion_def GetKind_def GetName_def
        getNestedString_def NestedString_def)

theorem enum_rejection_witness:
  "validationIssues (fixedCodec bogusModelConfig) kagentClient [] bogusModelConfig True =
     [invalidProviderBogus]
   \<and> validationIssues (fixedCodec bogusModelConfig) kagentClient [] wsRemoteServer True =
     [invalidProtocol]"
proof -
  have h1: "GetKind bogusModelConfig = ''ModelConfig''"
    and h2: "NestedString bogusModelConfig [''spec'', ''provider''] = (''Bogus'', True)"
    and h3: "fst (NestedString bogusModelConfig [''spec'', ''model'']) \<noteq> []"
    and h4: "fst (NestedString bogusModelConfig [''spec'', ''apiKeySecret'']) \<noteq> []"
    by (simp_all add: bogusModelConfig_fields)
  have h5: "GetKind wsRemoteServer = ''RemoteMCPServer''"
    and h6: "NestedString wsRemoteServer [''spec'', ''protocol''] = (''WS'', True)"
    and h7: "snd (NestedString wsRemoteServer [''spec'', ''url''])"
    and h8: "HasPrefix (fst (NestedString wsRemoteServer [''spec'', ''url''])) ''http://'' \<or>
         HasPrefix (fst (NestedString wsRemoteServer [''spec'', ''url''])) ''https://''"
    by (simp_all add: wsRemoteServer_fields HasPrefix_def)
  show ?thesis
    using enum_rejection [OF h1 h2 h3 h4 h5 h6 h7 h8,
        of True "fixedCodec bogusModelConfig" kagentClient "[]"]
    by (simp add: bogusModelConfig_fields wsRemoteServer_fields)
qed

section \<open>A missing kind is reported twice\<close>

text \<open>
  Claim C10. When the kind of a manifest is absent or empty, the validation reports two
  issues on the field kind: the error "kind is required" and, because the empty kind
  falls to the default branch of the switch, the warning "Unknown kind ''".
\<close>

theorem empty_kind_two_issues:
  assumes "GetKind ob = []"
  shows "filter (\<lambda>i. Field' i = ''kind'') (validationIssues y c s ob strict) =
     [\<lparr>Severity = ''error'', Field' = ''kind'', Message = ''kind is required''\<rparr>,
      \<lparr>Severity = ''warning'', Field' = ''kind'',
        Message = ''Unknown kind '' @ quoted [] @
            ''. Expected: Agent, ModelConfig, MCPServer, or RemoteMCPServer''\<rparr>]"
  using assms by (simp add: validationIssues_def)

theorem empty_kind_two_issues_witness:
  "GetKind kindlessManifest = [] \<and>
   filter (\<lambda>i. Field' i = ''kind'')
     (validationIssues (fixedCodec kindlessManifest) kagentClient [] kindlessManifest True) =
     [\<lparr>Severity = ''error'', Field' = ''kind'', Message = ''kind is required''\<rparr>,
      \<lparr>Severity = ''warning'', Field' = ''kind'',
        Message = ''Unknown kind '' @ quoted [] @
            ''. Expected: Agent, ModelConfig, MCPServer, or RemoteMCPServer''\<rparr>]"
proof -
  have h: "GetKind kindlessManifest = []"
    by (simp add: kindlessManifest_def GetKind_def getNestedString_def NestedString_def)
  show ?thesis
    using h empty_kind_two_issues [OF h, of "fixedCodec kindlessManifest" kagentClient "[]" True]
    by simp
qed

section \<open>Accessors and setters\<close>

lemma NestedString_top_RemoveNestedField2:
  "a \<noteq> k \<Longrightarrow> NestedString (RemoveNestedField ob [k, f]) [a] = NestedString ob [a]"
  by (simp add: NestedString_def split: option.splits jv.splits)

lemma NestedString_top_setNestedField2:
  "a \<noteq> k \<Longrightarrow> NestedString (setNestedField ob v [k, f]) [a] = NestedString ob [a]"
  by (simp add: NestedString_def split: option.splits jv.splits)

lemma NestedString_RemoveNestedField2:
  "g \<noteq> f \<Longrightarrow> NestedString (RemoveNestedField ob [k, f]) [k, g] = NestedString ob [k, g]"
  by (simp add: NestedString_def split: option.splits jv.splits)

lemma NestedString_setNestedField2:
  "g \<noteq> f \<Longrightarrow> NestedString (setNestedField ob v [k, f]) [k, g] = NestedString ob [k, g]"
  by (simp add: NestedString_def split: option.splits jv.splits)

lemma GetKind_SetNamespace [simp]: "GetKind (SetNamespace ob ns) = GetKind ob"
  by (simp add: GetKind_def SetNamespace_def getNestedString_def NestedString_top_RemoveNestedField2
      NestedString_top_setNestedField2 del: RemoveNestedField.simps setNestedField.simps)

lemma GetName_SetNamespace [simp]: "GetName (SetNamespace ob ns) = GetName ob"
  by (simp add: GetName_def SetNamespace_def getNestedString_def NestedString_RemoveNestedField2
      NestedString_setNestedField2 del: RemoveNestedField.simps setNestedField.simps)

lemma GetKind_SetResourceVersion [simp]: "GetKind (SetResourceVersion ob rv) = GetKind ob"
  by (simp add: GetKind_def SetResourceVersion_def getNestedString_def NestedString_top_RemoveNestedField2
      NestedString_top_setNestedField2 del: RemoveNestedField.simps setNestedField.simps)

lemma GetName_SetResourceVersion [simp]: "GetName (SetResourceVersion ob rv) = GetName ob"
  by (simp add: GetName_def SetResourceVersion_def getNestedString_def NestedString_RemoveNestedField2
      NestedString_setNestedField2 del: RemoveNestedField.simps setNestedField.simps)

lemma GetNamespace_SetResourceVersion [simp]: "GetNamespace (SetResourceVersion ob rv) = GetNamespace ob"
  by (simp add: GetNamespace_def SetResourceVersion_def getNestedString_def NestedString_RemoveNestedField2
      NestedString_setNestedField2 del: RemoveNestedField.simps setNestedField.simps)

lemma GetName_metadata:
  "GetName ob \<noteq> [] \<Longrightarrow> \<exists>m. fmlookup ob ''metadata'' = Some (JObject m)"
  by (auto simp add: GetName_def getNestedString_def NestedString_def split: option.splits jv.splits nested.splits)

lemma GetResourceVersion_SetResourceVersion:
  "fmlookup ob ''metadata'' = Some (JObject m) \<Longrightarrow> GetResourceVersion (SetResourceVersion ob rv) = rv"
  by (simp add: GetResourceVersion_def SetResourceVersion_def getNestedString_def NestedString_def)

lemma GetResourceVersion_attached:
  "GetName ob \<noteq> [] \<Longrightarrow> GetResourceVersion (SetResourceVersion ob rv) = rv"
  using GetName_metadata GetResourceVersion_SetResourceVersion by blast


lemma GetNamespace_SetNamespace:
  "fmlookup ob ''metadata'' = Some (JObject m) \<Longrightarrow> ns \<noteq> [] \<Longrightarrow>
     GetNamespace (SetNamespace ob ns) = ns"
  by (simp add: GetNamespace_def SetNamespace_def getNestedString_def NestedString_def)

lemma plainAgent_fields:
  "GetKind plainAgent = ''Agent''"
  "GetName plainAgent = ''x''"
  "GetNamespace plainAgent = []"
  "fmlookup plainAgent ''metadata'' = Some (JObject (fmap_of_list [(''name'', JString ''x'')]))"
  by (simp_all add: plainAgent_def GetKind_def GetName_def GetNamespace_def
        getNestedString_def NestedString_def)

lemma storedAgent_fields:
  "GetKind storedAgent = ''Agent''"
  "GetName storedAgent = ''x''"
  "GetResourceVersion storedAgent = ''41''"
  by (simp_all add: storedAgent_def GetKind_def GetName_def GetResourceVersion_def
        getNestedString_def NestedString_def)

lemma kagent_plainAgent_fields:
  "GetKind (SetNamespace plainAgent ''kagent'') = ''Agent''"
  "GetName (SetNamespace plainAgent ''kagent'') = ''x''"
  "GetNamespace (SetNamespace plainAgent ''kagent'') = ''kagent''"
  by (simp_all add: plainAgent_fields GetNamespace_SetNamespace [OF plainAgent_fields(4)])

section \<open>Apply: create or update\<close>

lemma Apply_fetch_failed:
  assumes "Unmarshal y manifest = Inr parsed"
    and "gvrFromObject parsed = Inr gvr"
    and "ob = (if GetNamespace parsed = [] then SetNamespace parsed (namespace c) else parsed)"
    and "Get (dynamicClient c) s gvr (GetNamespace ob) (GetName ob) = Inl e"
  shows "Apply y c s manifest dryRun =
     (case Create (dynamicClient c) s gvr (GetNamespace ob) ob dryRun of
        (Inl err, s') \<Rightarrow>
          (Inl (FailedToCreateResource err),
           [GetCall gvr (GetNamespace ob) (GetName ob), CreateCall gvr (GetNamespace ob) ob dryRun], s')
      | (Inr created, s') \<Rightarrow>
          (Inr \<lparr>Action = ''created'', Kind = GetKind ob, Name = GetName ob,
                Namespace = GetNamespace ob, DryRun = dryRun\<rparr>,
           [GetCall gvr (GetNamespace ob) (GetName ob), CreateCall gvr (GetNamespace ob) ob dryRun], s'))"
  using assms(1,2,4) unfolding assms(3)
  by (simp add: Apply_def Let_def split: prod.splits sum.splits)

lemma Apply_fetch_found:
  assumes "Unmarshal y manifest = Inr parsed"
    and "gvrFromObject parsed = Inr gvr"
    and "ob = (if GetNamespace parsed = [] then SetNamespace parsed (namespace c) else parsed)"
    and "Get (dynamicClient c) s gvr (GetNamespace ob) (GetName ob) = Inr existing"
    and "ob' = SetResourceVersion ob (GetResourceVersion existing)"
  shows "Apply y c s manifest dryRun =
     (case Update (dynamicClient c) s gvr (GetNamespace ob) ob' dryRun of
        (Inl err, s') \<Rightarrow>
          (Inl (FailedToUpdateResource err),
           [GetCall gvr (GetNamespace ob) (GetName ob), UpdateCall gvr (GetNamespace ob) ob' dryRun], s')
      | (Inr updated, s') \<Rightarrow>
          (Inr \<lparr>Action = ''updated'', Kind = GetKind ob, Name = GetName ob,
                Namespace = GetNamespace ob, DryRun = dryRun\<rparr>,
           [GetCall gvr (GetNamespace ob) (GetName ob), UpdateCall gvr (GetNamespace ob) ob' dryRun], s'))"
  using assms(1,2,4) unfolding assms(3,5)
  by (simp add: Apply_def Let_def split: prod.splits sum.splits)

lemma Apply_cases:
  obtains
    (parse_error) err where
      "\<And>d. Apply y c s manifest d = (Inl (FailedToParseManifest err), [], s)"
  | (unknown_kind) err where
      "\<And>d. Apply y c s manifest d = (Inl err, [], s)"
  | (create) gvr ob where
      "\<And>d. Apply y c s manifest d =
         (case Create (dynamicClient c) s gvr (GetNamespace ob) ob d of
            (Inl err, s') \<Rightarrow>
              (Inl (FailedToCreateResource err),
               [GetCall gvr (GetNamespace ob) (GetName ob), CreateCall gvr (GetNamespace ob) ob d], s')
          | (Inr created, s') \<Rightarrow>
              (Inr \<lparr>Action = ''created'', Kind = GetKind ob, Name = GetName ob,
                    Namespace = GetNamespace ob, DryRun = d\<rparr>,
               [GetCall gvr (GetNamespace ob) (GetName ob), CreateCall gvr (GetNamespace ob) ob d], s'))"
  | (update) gvr ob ob' where
      "\<And>d. Apply y c s manifest d =
         (case Update (dynamicClient c) s gvr (GetNamespace ob) ob' d of
            (Inl err, s') \<Rightarrow>
              (Inl (FailedToUpdateResource err),
               [GetCall gvr (GetNamespace ob) (GetName ob), UpdateCall gvr (GetNamespace ob) ob' d], s')
          | (Inr updated, s') \<Rightarrow>
              (Inr \<lparr>Action = ''updated'', Kind = GetKind ob, Name = GetName ob,
                    Namespace = GetNamespace ob, DryRun = d\<rparr>,
               [GetCall gvr (GetNamespace ob) (GetName ob), UpdateCall gvr (GetNamespace ob) ob' d], s'))"
proof (cases "Unmarshal y manifest")
  case (Inl err)
  then have "Apply y c s manifest d = (Inl (FailedToParseManifest err), [], s)" for d
    by (simp add: Apply_def)
  then show ?thesis by (rule parse_error)
next
  case (Inr parsed)
  note p = this
  show ?thesis
  proof (cases "gvrFromObject parsed")
    case (Inl err)
    then have "Apply y c s manifest d = (Inl err, [], s)" for d
      using p by (simp add: Apply_def)
    then show ?thesis by (rule unknown_kind)
  next
    case (Inr gvr)
    note g = this
    define ob where "ob = (if GetNamespace parsed = [] then SetNamespace parsed (namespace c) else parsed)"
    show ?thesis
    proof (cases "Get (dynamicClient c) s gvr (GetNamespace ob) (GetName ob)")
      case (Inl e)
      show ?thesis
        by (rule create [of gvr ob]) (rule Apply_fetch_failed [OF p g ob_def Inl])
    next
      case (Inr existing)
      show ?thesis
        by (rule update [of gvr ob "SetResourceVersion ob (GetResourceVersion existing)"])
           (rule Apply_fetch_found [OF p g ob_def Inr refl])
    qed
  qed
qed

lemma Apply_dry_run_state:
  assumes "\<And>s g n ob. snd (Create (dynamicClient c) s g n ob True) = s"
    and "\<And>s g n ob. snd (Update (dynamicClient c) s g n ob True) = s"
  shows "snd (snd (Apply y c s manifest True)) = s"
proof (cases rule: Apply_cases [of y c s manifest])
  case (parse_error err)
  then show ?thesis by simp
next
  case (unknown_kind err)
  then show ?thesis by simp
next
  case (create gvr ob)
  show ?thesis
    using assms(1) [of s gvr "GetNamespace ob" ob]
    by (auto simp add: create split: prod.splits sum.splits)
next
  case (update gvr ob ob')
  show ?thesis
    using assms(2) [of s gvr "GetNamespace ob" ob']
    by (auto simp add: update split: prod.splits sum.splits)
qed

lemma Apply_calls_flag:
  "call \<in> set (fst (snd (Apply y c s manifest dryRun))) \<Longrightarrow>
     dryRunOf call = None \<or> dryRunOf call = Some dryRun"
  by (cases rule: Apply_cases [of y c s manifest])
     (auto split: prod.splits sum.splits)

lemma Apply_calls_same:
  "map (withDryRun False) (fst (snd (Apply y c s manifest True))) =
     fst (snd (Apply y c s manifest False))"
  by (cases rule: Apply_cases [of y c s manifest])
     (simp_all split: prod.splits sum.splits)

lemma Apply_outcome_same:
  "fst (Apply y c s manifest True) = Inr r \<Longrightarrow> fst (Apply y c s manifest False) = Inr r' \<Longrightarrow>
     r = r'\<lparr>DryRun := True\<rparr>"
  by (cases rule: Apply_cases [of y c s manifest])
     (auto split: prod.splits sum.splits)

text \<open>
  Claim C2. Apply resolves the kind and the namespace (the client's when the manifest has
  none) and reads the store under that identity. When the identity is absent (the read
  answers not found), Apply submits one create of the manifest to the store: its calls
  are the read and that create, its next state is the one the store's create returns, and
  its result is action=created when the store accepts the create and the wrapped error of
  the create otherwise. When the identity is present (the read answers with the stored
  copy), Apply sets the resource version of the stored copy on the manifest (a manifest
  that has a name then carries that version) and submits one update of that manifest: its
  calls are the read and that update, its next state is the one the store's update
  returns, and its result is action=updated when the store accepts the update and the
  wrapped error of the update otherwise.
\<close>

theorem apply_create_or_update:
  assumes "Unmarshal y manifest = Inr parsed"
    and "gvrFromObject parsed = Inr gvr"
    and "ob = (if GetNamespace parsed = [] then SetNamespace parsed (namespace c) else parsed)"
  shows "GetKind ob = GetKind parsed \<and> GetName ob = GetName parsed
       \<and> (Get (dynamicClient c) s gvr (GetNamespace ob) (GetName ob) = Inl NotFound \<longrightarrow>
            Apply y c s manifest dryRun =
              (case Create (dynamicClient c) s gvr (GetNamespace ob) ob dryRun of
                 (Inl err, s') \<Rightarrow>
                   (Inl (FailedToCreateResource err),
                    [GetCall gvr (GetNamespace ob) (GetName ob),
                     CreateCall gvr (GetNamespace ob) ob dryRun], s')
               | (Inr created, s') \<Rightarrow>
                   (Inr \<lparr>Action = ''created'', Kind = GetKind ob, Name = GetName ob,
                         Namespace = GetNamespace ob, DryRun = dryRun\<rparr>,
                    [GetCall gvr (GetNamespace ob) (GetName ob),
                     CreateCall gvr (GetNamespace ob) ob dryRun], s')))
       \<and> (\<forall>existing ob'.
            Get (dynamicClient c) s gvr (GetNamespace ob) (GetName ob) = Inr existing \<and>
            ob' = SetResourceVersion ob (GetResourceVersion existing) \<longrightarrow>
              (GetName parsed \<noteq> [] \<longrightarrow> GetResourceVersion ob' = GetResourceVersion existing)
            \<and> Apply y c s manifest dryRun =
                (case Update (dynamicClient c) s gvr (GetNamespace ob) ob' dryRun of
                   (Inl err, s') \<Rightarrow>
                     (Inl (FailedToUpdateResource err),
                      [GetCall gvr (GetNamespace ob) (GetName ob),
                       UpdateCall gvr (GetNamespace ob) ob' dryRun], s')
                 | (Inr updated, s') \<Rightarrow>
                     (Inr \<lparr>Action = ''updated'', Kind = GetKind ob, Name = GetName ob,
                           Namespace = GetNamespace ob, DryRun = dryRun\<rparr>,
                      [GetCall gvr (GetNamespace ob) (GetName ob),
                       UpdateCall gvr (GetNamespace ob) ob' dryRun], s')))"
proof -
  have kn: "GetKind ob = GetKind parsed" "GetName ob = GetName parsed"
    by (simp_all add: assms(3))
  have token: "GetResourceVersion (SetResourceVersion ob rv) = rv"
    if "GetName parsed \<noteq> []" for rv
    using that GetResourceVersion_attached [of ob rv] kn by simp
  show ?thesis
    using kn token Apply_fetch_failed [OF assms, of s NotFound dryRun]
      Apply_fetch_found [OF assms, of s _ _ dryRun]
    by blast
qed

theorem apply_create_or_update_witness:
  "Apply (fixedCodec plainAgent) kagentClient [] ''agent.yaml'' False =
     (Inr \<lparr>Action = ''created'', Kind = ''Agent'', Name = ''x'', Namespace = ''kagent'',
           DryRun = False\<rparr>,
      [GetCall AgentGVR ''kagent'' ''x'',
       CreateCall AgentGVR ''kagent'' (SetNamespace plainAgent ''kagent'') False],
      [((AgentGVR, ''kagent'', ''x''), SetNamespace plainAgent ''kagent'')])
   \<and> Apply (fixedCodec plainAgent) kagentClient oneAgentStore ''agent.yaml'' False =
     (Inr \<lparr>Action = ''updated'', Kind = ''Agent'', Name = ''x'', Namespace = ''kagent'',
           DryRun = False\<rparr>,
      [GetCall AgentGVR ''kagent'' ''x'',
       UpdateCall AgentGVR ''kagent''
         (SetResourceVersion (SetNamespace plainAgent ''kagent'') ''41'') False],
      ((AgentGVR, ''kagent'', ''x''),
       SetResourceVersion (SetNamespace plainAgent ''kagent'') ''41'') # oneAgentStore)
   \<and> GetResourceVersion (SetResourceVersion (SetNamespace plainAgent ''kagent'') ''41'') = ''41''"
proof -
  define ob where "ob = SetNamespace plainAgent ''kagent''"
  define ob' where "ob' = SetResourceVersion ob (GetResourceVersion storedAgent)"
  have h1: "Unmarshal (fixedCodec plainAgent) ''agent.yaml'' = Inr plainAgent"
    by (simp add: fixedCodec_def)
  have h2: "gvrFromObject plainAgent = Inr AgentGVR"
    by (simp add: gvrFromObject_def gvrFromKind_def plainAgent_fields)
  have h3: "ob = (if GetNamespace plainAgent = [] then SetNamespace plainAgent (namespace kagentClient)
        else plainAgent)"
    by (simp add: ob_def plainAgent_fields kagentClient_def)
  note T = apply_create_or_update [OF h1 h2 h3]
  have obf: "GetKind ob = ''Agent''" "GetName ob = ''x''" "GetNamespace ob = ''kagent''"
    by (simp_all add: ob_def kagent_plainAgent_fields plainAgent_fields)
  have g0: "Get (dynamicClient kagentClient) [] AgentGVR (GetNamespace ob) (GetName ob) = Inl NotFound"
    by (simp add: obf kagentClient_def memStore_def)
  have c0: "Create (dynamicClient kagentClient) [] AgentGVR ''kagent'' ob False =
      (Inr ob, [((AgentGVR, ''kagent'', ''x''), ob)])"
    by (simp add: obf kagentClient_def memStore_def)
  have "Apply (fixedCodec plainAgent) kagentClient [] ''agent.yaml'' False =
      (case Create (dynamicClient kagentClient) [] AgentGVR (GetNamespace ob) ob False of
         (Inl err, s') \<Rightarrow>
           (Inl (FailedToCreateResource err),
            [GetCall AgentGVR (GetNamespace ob) (GetName ob),
             CreateCall AgentGVR (GetNamespace ob) ob False], s')
       | (Inr created, s') \<Rightarrow>
           (Inr \<lparr>Action = ''created'', Kind = GetKind ob, Name = GetName ob,
                 Namespace = GetNamespace ob, DryRun = False\<rparr>,
            [GetCall AgentGVR (GetNamespace ob) (GetName ob),
             CreateCall AgentGVR (GetNamespace ob) ob False], s'))"
    using T [of "[]" False] g0 by blast
  then have created: "Apply (fixedCodec plainAgent) kagentClient [] ''agent.yaml'' False =
      (Inr \<lparr>Action = ''created'', Kind = ''Agent'', Name = ''x'', Namespace = ''kagent'',
            DryRun = False\<rparr>,
       [GetCall AgentGVR ''kagent'' ''x'', CreateCall AgentGVR ''kagent'' ob False],
       [((AgentGVR, ''kagent'', ''x''), ob)])"
    by (simp add: c0 obf)
  have g1: "Get (dynamicClient kagentClient) oneAgentStore AgentGVR (GetNamespace ob) (GetName ob) =
      Inr storedAgent"
    by (simp add: obf kagentClient_def memStore_def oneAgentStore_def)
  have n: "GetName plainAgent \<noteq> []"
    by (simp add: plainAgent_fields)
  have rv: "GetResourceVersion ob' = GetResourceVersion storedAgent"
    using T [of oneAgentStore False] g1 n ob'_def by blast
  have u1: "Update (dynamicClient kagentClient) oneAgentStore AgentGVR ''kagent'' ob' False =
      (Inr ob', ((AgentGVR, ''kagent'', ''x''), ob') # oneAgentStore)"
    using rv by (simp add: obf ob'_def kagentClient_def memStore_def oneAgentStore_def)
  have "Apply (fixedCodec plainAgent) kagentClient oneAgentStore ''agent.yaml'' False =
      (case Update (dynamicClient kagentClient) oneAgentStore AgentGVR (GetNamespace ob) ob' False of
         (Inl err, s') \<Rightarrow>
           (Inl (FailedToUpdateResource err),
            [GetCall AgentGVR (GetNamespace ob) (GetName ob),
             UpdateCall AgentGVR (GetNamespace ob) ob' False], s')
       | (Inr updated, s') \<Rightarrow>
           (Inr \<lparr>Action = ''updated'', Kind = GetKind ob, Name = GetName ob,
                 Namespace = GetNamespace ob, DryRun = False\<rparr>,
            [GetCall AgentGVR (GetNamespace ob) (GetName ob),
             UpdateCall AgentGVR (GetNamespace ob) ob' False], s'))"
    using T [of oneAgentStore False] g1 ob'_def by blast
  then have updated: "Apply (fixedCodec plainAgent) kagentClient oneAgentStore ''agent.yaml'' False =
      (Inr \<lparr>Action = ''updated'', Kind = ''Agent'', Name = ''x'', Namespace = ''kagent'',
            DryRun = False\<rparr>,
       [GetCall AgentGVR ''kagent'' ''x'', UpdateCall AgentGVR ''kagent'' ob' False],
       ((AgentGVR, ''kagent'', ''x''), ob') # oneAgentStore)"
    by (simp add: u1 obf)
  have ob'_eq: "ob' = SetResourceVersion (SetNamespace plainAgent ''kagent'') ''41''"
    by (simp add: ob'_def ob_def storedAgent_fields)
  have attached: "GetResourceVersion ob' = ''41''"
    using rv by (simp add: storedAgent_fields)
  show ?thesis
    using created updated attached unfolding ob'_eq ob_def by simp
qed

section \<open>Apply: dry run\<close>

text \<open>
  Claim C7. With dryRun=true every write Apply submits, the create as well as the update,
  carries the dry-run flag, so a store that leaves its state alone on a dry-run write is
  in the same state afterwards; the calls are those of the run with dryRun=false up to
  that flag, and when both runs return an outcome, the dry-run outcome is the other one
  with dryRun=true: same action, kind, name and namespace.
\<close>

theorem dry_run_purity:
  assumes "\<And>s g n ob. snd (Create (dynamicClient c) s g n ob True) = s"
    and "\<And>s g n ob. snd (Update (dynamicClient c) s g n ob True) = s"
  shows "snd (snd (Apply y c s manifest True)) = s
       \<and> (\<forall>call \<in> set (fst (snd (Apply y c s manifest True))). dryRunOf call \<noteq> Some False)
       \<and> map (withDryRun False) (fst (snd (Apply y c s manifest True))) =
           fst (snd (Apply y c s manifest False))
       \<and> (\<forall>r r'. fst (Apply y c s manifest True) = Inr r \<and>
                  fst (Apply y c s manifest False) = Inr r' \<longrightarrow>
                  r = r'\<lparr>DryRun := True\<rparr> \<and> Action r = Action r' \<and> DryRun r)"
proof -
  have a: "snd (snd (Apply y c s manifest True)) = s"
    using assms by (rule Apply_dry_run_state)
  have b: "\<forall>call \<in> set (fst (snd (Apply y c s manifest True))). dryRunOf call \<noteq> Some False"
    using Apply_calls_flag [of _ y c s manifest True] by force
  have d: "map (withDryRun False) (fst (snd (Apply y c s manifest True))) =
           fst (snd (Apply y c s manifest False))"
    by (rule Apply_calls_same)
  have e: "\<forall>r r'. fst (Apply y c s manifest True) = Inr r \<and>
                  fst (Apply y c s manifest False) = Inr r' \<longrightarrow>
                  r = r'\<lparr>DryRun := True\<rparr> \<and> Action r = Action r' \<and> DryRun r"
    using Apply_outcome_same [of y c s manifest] by fastforce
  from a b d e show ?thesis by blast
qed

lemma memStore_dry_run:
  "snd (Create (dynamicClient kagentClient) s g n ob True) = s"
  "snd (Update (dynamicClient kagentClient) s g n ob True) = s"
  by (simp_all add: kagentClient_def memStore_def split: option.splits)

lemma plainAgent_update:
  "Apply (fixedCodec plainAgent) kagentClient oneAgentStore ''agent.yaml'' d =
     (Inr \<lparr>Action = ''updated'', Kind = ''Agent'', Name = ''x'', Namespace = ''kagent'',
           DryRun = d\<rparr>,
      [GetCall AgentGVR ''kagent'' ''x'',
       UpdateCall AgentGVR ''kagent''
         (SetResourceVersion (SetNamespace plainAgent ''kagent'') ''41'') d],
      if d then oneAgentStore
      else ((AgentGVR, ''kagent'', ''x''),
            SetResourceVersion (SetNamespace plainAgent ''kagent'') ''41'') # oneAgentStore)"
proof -
  define ob where "ob = SetNamespace plainAgent ''kagent''"
  define ob' where "ob' = SetResourceVersion ob (GetResourceVersion storedAgent)"
  have h1: "Unmarshal (fixedCodec plainAgent) ''agent.yaml'' = Inr plainAgent"
    by (simp add: fixedCodec_def)
  have h2: "gvrFromObject plainAgent = Inr AgentGVR"
    by (simp add: gvrFromObject_def gvrFromKind_def plainAgent_fields)
  have h3: "ob = (if GetNamespace plainAgent = [] then SetNamespace plainAgent (namespace kagentClient)
        else plainAgent)"
    by (simp add: ob_def plainAgent_fields kagentClient_def)
  have obf: "GetKind ob = ''Agent''" "GetName ob = ''x''" "GetNamespace ob = ''kagent''"
    by (simp_all add: ob_def kagent_plainAgent_fields plainAgent_fields)
  have h4: "Get (dynamicClient kagentClient) oneAgentStore AgentGVR (GetNamespace ob) (GetName ob) =
      Inr storedAgent"
    by (simp add: obf kagentClient_def memStore_def oneAgentStore_def)
  have rv: "GetResourceVersion ob' = ''41''"
    unfolding ob'_def storedAgent_fields
    by (rule GetResourceVersion_attached) (simp add: obf)
  have u: "Update (dynamicClient kagentClient) oneAgentStore AgentGVR (GetNamespace ob) ob' d =
      (Inr ob', if d then oneAgentStore else ((AgentGVR, ''kagent'', ''x''), ob') # oneAgentStore)"
    using rv
    by (simp add: obf ob'_def kagentClient_def memStore_def oneAgentStore_def storedAgent_fields)
  show ?thesis
    using Apply_fetch_found [OF h1 h2 h3 h4 ob'_def, of d] u
    by (simp add: obf, simp add: ob'_def ob_def storedAgent_fields)
qed

theorem dry_run_purity_witness:
  "snd (snd (Apply (fixedCodec plainAgent) kagentClient oneAgentStore ''agent.yaml'' True)) =
     oneAgentStore
   \<and> snd (snd (Apply (fixedCodec plainAgent) kagentClient oneAgentStore ''agent.yaml'' False)) \<noteq>
     oneAgentStore
   \<and> fst (Apply (fixedCodec plainAgent) kagentClient oneAgentStore ''agent.yaml'' True) =
     Inr \<lparr>Action = ''updated'', Kind = ''Agent'', Name = ''x'', Namespace = ''kagent'',
           DryRun = True\<rparr>"
proof -
  have t: "snd (snd (Apply (fixedCodec plainAgent) kagentClient oneAgentStore ''agent.yaml'' True)) =
       oneAgentStore"
    and o: "\<forall>r r'.
       fst (Apply (fixedCodec plainAgent) kagentClient oneAgentStore ''agent.yaml'' True) = Inr r \<and>
       fst (Apply (fixedCodec plainAgent) kagentClient oneAgentStore ''agent.yaml'' False) = Inr r' \<longrightarrow>
       r = r'\<lparr>DryRun := True\<rparr> \<and> Action r = Action r' \<and> DryRun r"
    using dry_run_purity [of kagentClient "fixedCodec plainAgent" oneAgentStore "''agent.yaml''",
        OF memStore_dry_run]
    by blast+
  have f: "fst (Apply (fixedCodec plainAgent) kagentClient oneAgentStore ''agent.yaml'' False) =
      Inr \<lparr>Action = ''updated'', Kind = ''Agent'', Name = ''x'', Namespace = ''kagent'',
            DryRun = False\<rparr>"
    and n: "snd (snd (Apply (fixedCodec plainAgent) kagentClient oneAgentStore ''agent.yaml'' False)) \<noteq>
      oneAgentStore"
    by (simp_all add: plainAgent_update)
  have "\<exists>r. fst (Apply (fixedCodec plainAgent) kagentClient oneAgentStore ''agent.yaml'' True) = Inr r"
    by (simp add: plainAgent_update)
  then obtain r where
    r: "fst (Apply (fixedCodec plainAgent) kagentClient oneAgentStore ''agent.yaml'' True) = Inr r"
    by blast
  with o f have "r = \<lparr>Action = ''updated'', Kind = ''Agent'', Name = ''x'', Namespace = ''kagent'',
            DryRun = False\<rparr>\<lparr>DryRun := True\<rparr>"
    by blast
  with r t n show ?thesis by simp
qed

section \<open>Apply: a failed read\<close>

text \<open>
  Claim C8. Whatever error the first read of Apply answers (not found, forbidden,
  unavailable, ...), Apply goes on to the create branch: it submits one create of the
  manifest as it is, with no resource version taken from the store, and its result is
  decided by that create alone: action=created when the store accepts it, the wrapped
  create error otherwise. The read error itself is never returned.
\<close>

theorem apply_fetch_error_creates:
  assumes "Unmarshal y manifest = Inr parsed"
    and "gvrFromObject parsed = Inr gvr"
    and "ob = (if GetNamespace parsed = [] then SetNamespace parsed (namespace c) else parsed)"
    and "Get (dynamicClient c) s gvr (GetNamespace ob) (GetName ob) = Inl e"
  shows "fst (snd (Apply y c s manifest dryRun)) =
           [GetCall gvr (GetNamespace ob) (GetName ob), CreateCall gvr (GetNamespace ob) ob dryRun]
       \<and> fst (Apply y c s manifest dryRun) =
           (case fst (Create (dynamicClient c) s gvr (GetNamespace ob) ob dryRun) of
              Inl err \<Rightarrow> Inl (FailedToCreateResource err)
            | Inr created \<Rightarrow>
                Inr \<lparr>Action = ''created'', Kind = GetKind ob, Name = GetName ob,
                      Namespace = GetNamespace ob, DryRun = dryRun\<rparr>)"
  by (simp add: Apply_fetch_failed [OF assms] split: prod.splits sum.splits)

theorem apply_fetch_error_creates_witness:
  "Get (dynamicClient forbiddenClient) [] AgentGVR ''kagent'' ''x'' = Inl Forbidden
   \<and> fst (Apply (fixedCodec plainAgent) forbiddenClient [] ''agent.yaml'' False) =
     Inr \<lparr>Action = ''created'', Kind = ''Agent'', Name = ''x'', Namespace = ''kagent'',
           DryRun = False\<rparr>"
proof -
  define ob where "ob = SetNamespace plainAgent ''kagent''"
  have h1: "Unmarshal (fixedCodec plainAgent) ''agent.yaml'' = Inr plainAgent"
    by (simp add: fixedCodec_def)
  have h2: "gvrFromObject plainAgent = Inr AgentGVR"
    by (simp add: gvrFromObject_def gvrFromKind_def plainAgent_fields)
  have h3: "ob = (if GetNamespace plainAgent = [] then SetNamespace plainAgent (namespace forbiddenClient)
        else plainAgent)"
    by (simp add: ob_def plainAgent_fields forbiddenClient_def)
  have obf: "GetKind ob = ''Agent''" "GetName ob = ''x''" "GetNamespace ob = ''kagent''"
    by (simp_all add: ob_def kagent_plainAgent_fields plainAgent_fields)
  have h4: "Get (dynamicClient forbiddenClient) [] AgentGVR (GetNamespace ob) (GetName ob) =
      Inl Forbidden"
    by (simp add: forbiddenClient_def)
  have c0: "fst (Create (dynamicClient forbiddenClient) [] AgentGVR (GetNamespace ob) ob False) =
      Inr ob"
    by (simp add: obf forbiddenClient_def memStore_def)
  show ?thesis
    using apply_fetch_error_creates [OF h1 h2 h3 h4, of False] h4 c0
    by (simp add: obf)
qed

section \<open>Diff: a failed read\<close>

text \<open>
  Claim C9. Whenever the fetch of the current state fails, for whatever reason (the kind
  is unknown to the client, or the store answers the read with any error), the diff
  answers with the new-resource report, the same as for a resource that does not exist;
  the error is not part of the answer.
\<close>

theorem diff_fetch_error_is_new:
  assumes "manifest \<noteq> []"
    and "Unmarshal y manifest = Inr ob"
  shows "(\<forall>err. fst (GetCurrentState y c s (GetKind ob) (GetName ob)) = Inl err \<longrightarrow>
            fst (handleDiffManifest y c s manifest) = NewResource (GetKind ob) (GetName ob) manifest)
       \<and> (\<forall>err. gvrFromKind (GetKind ob) = Inl err \<longrightarrow>
            fst (handleDiffManifest y c s manifest) = NewResource (GetKind ob) (GetName ob) manifest)
       \<and> (\<forall>gvr err. gvrFromKind (GetKind ob) = Inr gvr \<and>
            Get (dynamicClient c) s gvr (namespace c) (GetName ob) = Inl err \<longrightarrow>
            fst (handleDiffManifest y c s manifest) = NewResource (GetKind ob) (GetName ob) manifest)"
proof -
  have a: "fst (handleDiffManifest y c s manifest) = NewResource (GetKind ob) (GetName ob) manifest"
    if "fst (GetCurrentState y c s (GetKind ob) (GetName ob)) = Inl err" for err
    using that assms by (auto simp add: handleDiffManifest_def Let_def split: prod.splits)
  have b: "fst (GetCurrentState y c s (GetKind ob) (GetName ob)) = Inl err"
    if "gvrFromKind (GetKind ob) = Inl err" for err
    using that by (simp add: GetCurrentState_def)
  have d: "fst (GetCurrentState y c s (GetKind ob) (GetName ob)) = Inl err"
    if "gvrFromKind (GetKind ob) = Inr gvr"
      and "Get (dynamicClient c) s gvr (namespace c) (GetName ob) = Inl err" for gvr err
    using that by (simp add: GetCurrentState_def)
  show ?thesis using a b d by blast
qed

lemma deploymentManifest_fields:
  "GetKind deploymentManifest = ''Deployment''"
  "GetName deploymentManifest = ''web''"
  by (simp_all add: deploymentManifest_def GetKind_def GetName_def getNestedString_def
        NestedString_def)

theorem diff_fetch_error_is_new_witness:
  "fst (handleDiffManifest (fixedCodec deploymentManifest) kagentClient [] ''web.yaml'') =
     NewResource ''Deployment'' ''web'' ''web.yaml''
   \<and> fst (handleDiffManifest (fixedCodec plainAgent) forbiddenClient oneAgentStore ''agent.yaml'') =
     NewResource ''Agent'' ''x'' ''agent.yaml''"
proof -
  have a1: "''web.yaml'' \<noteq> []" and b1: "''agent.yaml'' \<noteq> []"
    by simp_all
  have a2: "Unmarshal (fixedCodec deploymentManifest) ''web.yaml'' = Inr deploymentManifest"
    and b2: "Unmarshal (fixedCodec plainAgent) ''agent.yaml'' = Inr plainAgent"
    by (simp_all add: fixedCodec_def)
  have a3: "gvrFromKind (GetKind deploymentManifest) = Inl (UnknownKind ''Deployment'')"
    by (simp add: deploymentManifest_fields gvrFromKind_def)
  have b3: "gvrFromKind (GetKind plainAgent) = Inr AgentGVR \<and>
      Get (dynamicClient forbiddenClient) oneAgentStore AgentGVR (namespace forbiddenClient)
        (GetName plainAgent) = Inl Forbidden"
    by (simp add: plainAgent_fields gvrFromKind_def forbiddenClient_def)
  have "fst (handleDiffManifest (fixedCodec deploymentManifest) kagentClient [] ''web.yaml'') =
      NewResource (GetKind deploymentManifest) (GetName deploymentManifest) ''web.yaml''"
    using diff_fetch_error_is_new [OF a1 a2, of kagentClient "[]"] a3 by blast
  moreover
  have "fst (handleDiffManifest (fixedCodec plainAgent) forbiddenClient oneAgentStore ''agent.yaml'') =
      NewResource (GetKind plainAgent) (GetName plainAgent) ''agent.yaml''"
    using diff_fetch_error_is_new [OF b1 b2, of forbiddenClient oneAgentStore] b3 by blast
  ultimately show ?thesis
    by (simp add: deploymentManifest_fields plainAgent_fields)
qed

section \<open>Diff: server-managed fields\<close>

lemma fmupd_same: "fmlookup m k = Some v \<Longrightarrow> fmupd k v m = m"
  by (rule fmap_ext) auto

lemma fmdrop_absent: "fmlookup m k = None \<Longrightarrow> fmdrop k m = m"
  by (rule fmap_ext) simp

lemma RemoveNestedField_absent:
  assumes "case NestedFieldNoCopy (JObject ob) [k, f] of Found _ \<Rightarrow> False | _ \<Rightarrow> True"
  shows "RemoveNestedField ob [k, f] = ob"
proof (cases "fmlookup ob k")
  case None
  then show ?thesis by simp
next
  case (Some v)
  show ?thesis
  proof (cases v)
    case (JObject x)
    with Some assms have "fmlookup x f = None"
      by (simp split: option.splits)
    then have "fmdrop f x = x" by (rule fmdrop_absent)
    then show ?thesis using Some JObject by (simp add: fmupd_same)
  qed (use Some in simp_all)
qed

lemma NestedFieldNoCopy_fmdrop:
  "k \<noteq> d \<Longrightarrow>
     NestedFieldNoCopy (JObject (fmdrop d ob)) (k # fs) = NestedFieldNoCopy (JObject ob) (k # fs)"
  by simp

lemma stripServerManaged_idle:
  assumes "carriesNoManagedMetadata ob"
  shows "stripServerManaged ob = fmdrop ''status'' ob"
proof -
  have r: "RemoveNestedField (fmdrop ''status'' ob) [''metadata'', f] = fmdrop ''status'' ob"
    if "f \<in> set managedMetadataFields" for f
  proof (rule RemoveNestedField_absent)
    have "case NestedFieldNoCopy (JObject ob) [''metadata'', f] of Found _ \<Rightarrow> False | _ \<Rightarrow> True"
      using assms that by (simp add: carriesNoManagedMetadata_def list_all_iff)
    moreover have "NestedFieldNoCopy (JObject (fmdrop ''status'' ob)) [''metadata'', f] =
        NestedFieldNoCopy (JObject ob) [''metadata'', f]"
      by (rule NestedFieldNoCopy_fmdrop) simp
    ultimately show "case NestedFieldNoCopy (JObject (fmdrop ''status'' ob)) [''metadata'', f] of
        Found _ \<Rightarrow> False | _ \<Rightarrow> True"
      by simp
  qed
  show ?thesis
    unfolding stripServerManaged_def
    by (simp add: r managedMetadataFields_def del: RemoveNestedField.simps)
qed

lemma drops_are_filter:
  "fmdrop ''managedFields'' (fmdrop ''uid'' (fmdrop ''resourceVersion''
     (fmdrop ''generation'' (fmdrop ''creationTimestamp'' m)))) =
   fmfilter (\<lambda>f. f \<notin> set managedMetadataFields) m"
  by (rule fmap_ext) (simp add: managedMetadataFields_def)

text \<open>
  The six removals of \<^verbatim>\<open>GetCurrentState\<close> erase exactly the status subtree and the five
  server-managed metadata fields.
\<close>

lemma stripServerManaged_erases: "stripServerManaged ob = eraseManaged ob"
proof (cases "\<exists>m. fmlookup ob ''metadata'' = Some (JObject m)")
  case True
  then obtain m where m: "fmlookup ob ''metadata'' = Some (JObject m)" by blast
  have step: "RemoveNestedField (fmupd ''metadata'' (JObject a) x) [''metadata'', f] =
      fmupd ''metadata'' (JObject (fmdrop f a)) x" for a x f
    by simp
  have first: "RemoveNestedField (fmdrop ''status'' ob) [''metadata'', f] =
      fmupd ''metadata'' (JObject (fmdrop f m)) (fmdrop ''status'' ob)" for f
    using m by simp
  have "stripServerManaged ob =
      fmupd ''metadata''
        (JObject (fmdrop ''managedFields'' (fmdrop ''uid'' (fmdrop ''resourceVersion''
           (fmdrop ''generation'' (fmdrop ''creationTimestamp'' m))))))
        (fmdrop ''status'' ob)"
    unfolding stripServerManaged_def first step ..
  also have "\<dots> = eraseManaged ob"
    using m by (simp add: eraseManaged_def drops_are_filter fmdrop_fmupd)
  finally show ?thesis .
next
  case False
  then have idle: "RemoveNestedField (fmdrop ''status'' ob) [''metadata'', f] = fmdrop ''status'' ob"
    for f
    by (cases "fmlookup ob ''metadata''") (auto split: jv.splits)
  have "stripServerManaged ob = fmdrop ''status'' ob"
    unfolding stripServerManaged_def idle ..
  also have "\<dots> = eraseManaged ob"
    using False by (auto simp add: eraseManaged_def split: option.splits jv.splits)
  finally show ?thesis .
qed

lemma diff_result:
  assumes "manifest \<noteq> []"
    and "Unmarshal y manifest = Inr proposed"
    and "gvrFromKind (GetKind proposed) = Inr gvr"
    and "Get (dynamicClient c) s gvr (namespace c) (GetName proposed) = Inr stored"
    and "Marshal y (stripServerManaged stored) = Inr currentYAML"
    and "Unmarshal y currentYAML = Inr current"
  shows "handleDiffManifest y c s manifest =
     (if current = fmdrop ''status'' proposed
      then NoChangesDetected (GetKind proposed) (GetName proposed)
      else DiffText (GetKind proposed) (GetName proposed) current (fmdrop ''status'' proposed),
      [GetCall gvr (namespace c) (GetName proposed)])"
  using assms by (simp add: handleDiffManifest_def GetCurrentState_def Let_def)

lemma storedAgent_stripped: "stripServerManaged storedAgent = plainAgent"
  by (rule fmap_ext)
     (auto simp add: stripServerManaged_def storedAgent_def plainAgent_def fmdrop_fmupd)

lemma uidAgent_stripped: "stripServerManaged uidAgent = plainAgent"
  by (rule fmap_ext)
     (auto simp add: stripServerManaged_def uidAgent_def plainAgent_def fmdrop_fmupd)

lemma no_status:
  "fmdrop ''status'' plainAgent = plainAgent"
  "fmdrop ''status'' uidAgent = uidAgent"
  "fmdrop ''status'' prodAgent = prodAgent"
  by (simp_all add: fmdrop_absent plainAgent_def uidAgent_def prodAgent_def)

lemma plainAgent_no_managed: "carriesNoManagedMetadata plainAgent"
  by (simp add: carriesNoManagedMetadata_def managedMetadataFields_def plainAgent_def)

lemma plainAgent_neq:
  "plainAgent \<noteq> uidAgent"
  "plainAgent \<noteq> prodAgent"
proof -
  have "NestedFieldNoCopy (JObject plainAgent) [''metadata'', ''uid''] = Missing"
    and "NestedFieldNoCopy (JObject uidAgent) [''metadata'', ''uid''] = Found (JString ''u-1'')"
    by (simp_all add: plainAgent_def uidAgent_def)
  then show "plainAgent \<noteq> uidAgent" by auto
  have "NestedFieldNoCopy (JObject plainAgent) [''metadata'', ''namespace''] = Missing"
    and "NestedFieldNoCopy (JObject prodAgent) [''metadata'', ''namespace''] =
      Found (JString ''prod'')"
    by (simp_all add: plainAgent_def prodAgent_def)
  then show "plainAgent \<noteq> prodAgent" by auto
qed

lemma kagent_fetch:
  "namespace kagentClient = ''kagent''"
  "gvrFromKind ''Agent'' = Inr AgentGVR"
  "Get (dynamicClient kagentClient) oneAgentStore AgentGVR ''kagent'' ''x'' = Inr storedAgent"
  by (simp_all add: gvrFromKind_def kagentClient_def memStore_def oneAgentStore_def)

lemma textCodec_texts:
  "Unmarshal (textCodec proposed current) ''agent.yaml'' = Inr proposed"
  "Unmarshal (textCodec proposed current) ''current.yaml'' = Inr current"
  "Marshal (textCodec proposed current) ob = Inr ''current.yaml''"
  by (simp_all add: textCodec_def)

lemma liveAgent_erased: "eraseManaged liveAgent = plainAgent"
  by (rule fmap_ext)
     (auto simp add: eraseManaged_def liveAgent_def plainAgent_def managedMetadataFields_def
        fmdrop_fmupd)

lemma plainAgent_erased: "eraseManaged plainAgent = plainAgent"
  by (rule fmap_ext)
     (auto simp add: eraseManaged_def plainAgent_def managedMetadataFields_def fmdrop_fmupd)

lemma live_fetch:
  "Get (dynamicClient kagentClient) liveStore AgentGVR ''kagent'' ''x'' = Inr liveAgent"
  by (simp add: kagentClient_def memStore_def liveStore_def)

text \<open>
  Claim C1, as the code has it. Take a proposed manifest whose namespace is absent or is
  the client's configured namespace, so that the copy the diff fetches is the store's
  resource under the manifest's own identity, and which itself carries none of the
  server-managed metadata fields. When it differs from that stored resource only in the
  status subtree or in the server-managed metadata fields (creationTimestamp, generation,
  resourceVersion, uid, managedFields), the diff answers that nothing changes: the
  fetched copy is stripped of status and of those metadata fields, the proposed manifest
  of its top-level status only.
\<close>

theorem diff_ignores_managed_fields_of_store:
  assumes "manifest \<noteq> []"
    and "Unmarshal y manifest = Inr proposed"
    and "gvrFromKind (GetKind proposed) = Inr gvr"
    and "GetNamespace proposed = [] \<or> GetNamespace proposed = namespace c"
    and "Get (dynamicClient c) s gvr
           (if GetNamespace proposed = [] then namespace c else GetNamespace proposed)
           (GetName proposed) = Inr stored"
    and "Marshal y (stripServerManaged stored) = Inr currentYAML"
    and "Unmarshal y currentYAML = Inr (stripServerManaged stored)"
    and "carriesNoManagedMetadata proposed"
    and "eraseManaged stored = eraseManaged proposed"
  shows "handleDiffManifest y c s manifest =
           (NoChangesDetected (GetKind proposed) (GetName proposed),
            [GetCall gvr (namespace c) (GetName proposed)])"
proof -
  have g: "Get (dynamicClient c) s gvr (namespace c) (GetName proposed) = Inr stored"
    using assms(4,5) by (auto split: if_splits)
  have "stripServerManaged stored = eraseManaged proposed"
    using assms(9) by (simp add: stripServerManaged_erases)
  also have "\<dots> = fmdrop ''status'' proposed"
    using stripServerManaged_idle [OF assms(8)] by (simp add: stripServerManaged_erases)
  finally show ?thesis
    using diff_result [OF assms(1-3) g assms(6,7)] by simp
qed

theorem diff_ignores_managed_fields_of_store_witness:
  "carriesNoManagedMetadata plainAgent
   \<and> eraseManaged liveAgent = eraseManaged plainAgent
   \<and> liveAgent \<noteq> plainAgent
   \<and> handleDiffManifest (textCodec plainAgent (stripServerManaged liveAgent))
        kagentClient liveStore ''agent.yaml'' =
       (NoChangesDetected ''Agent'' ''x'', [GetCall AgentGVR ''kagent'' ''x''])"
proof -
  let ?y = "textCodec plainAgent (stripServerManaged liveAgent)"
  have h1: "''agent.yaml'' \<noteq> []" by simp
  have h2: "Unmarshal ?y ''agent.yaml'' = Inr plainAgent"
    by (rule textCodec_texts)
  have h3: "gvrFromKind (GetKind plainAgent) = Inr AgentGVR"
    by (simp add: plainAgent_fields kagent_fetch)
  have h4: "GetNamespace plainAgent = [] \<or> GetNamespace plainAgent = namespace kagentClient"
    by (simp add: plainAgent_fields)
  have h5: "Get (dynamicClient kagentClient) liveStore AgentGVR
      (if GetNamespace plainAgent = [] then namespace kagentClient else GetNamespace plainAgent)
      (GetName plainAgent) = Inr liveAgent"
    by (simp add: plainAgent_fields kagent_fetch live_fetch)
  have h6: "Marshal ?y (stripServerManaged liveAgent) = Inr ''current.yaml''"
    by (rule textCodec_texts)
  have h7: "Unmarshal ?y ''current.yaml'' = Inr (stripServerManaged liveAgent)"
    by (rule textCodec_texts)
  have h8: "carriesNoManagedMetadata plainAgent"
    by (rule plainAgent_no_managed)
  have h9: "eraseManaged liveAgent = eraseManaged plainAgent"
    by (simp add: liveAgent_erased plainAgent_erased)
  have "NestedFieldNoCopy (JObject liveAgent) [''metadata'', ''uid''] = Found (JString ''u-1'')"
    and "NestedFieldNoCopy (JObject plainAgent) [''metadata'', ''uid''] = Missing"
    by (simp_all add: liveAgent_def plainAgent_def)
  then have ne: "liveAgent \<noteq> plainAgent" by auto
  show ?thesis
    using h8 h9 ne diff_ignores_managed_fields_of_store [OF h1 h2 h3 h4 h5 h6 h7 h8 h9]
    by (simp add: plainAgent_fields kagent_fetch)
qed

text \<open>
  The claim as stated fails: a proposed manifest without a namespace, read in the
  client's own, that carries the uid of the stored resource differs from it only in status
  and metadata.resourceVersion, and the diff still reports a change, the uid, which the
  fetched copy has lost and the proposed manifest has kept.
\<close>

theorem diff_keeps_managed_fields_of_manifest:
  "storedAgent =
     fmupd ''status'' (JObject (fmap_of_list [(''ready'', JBool True)]))
       (SetResourceVersion uidAgent ''41'')
   \<and> stripServerManaged storedAgent = stripServerManaged uidAgent
   \<and> eraseManaged storedAgent = eraseManaged uidAgent
   \<and> GetNamespace uidAgent = []
   \<and> fst (handleDiffManifest (textCodec uidAgent (stripServerManaged storedAgent))
          kagentClient oneAgentStore ''agent.yaml'') = DiffText ''Agent'' ''x'' plainAgent uidAgent
   \<and> fst (handleDiffManifest (textCodec uidAgent (stripServerManaged storedAgent))
          kagentClient oneAgentStore ''agent.yaml'') \<noteq> NoChangesDetected ''Agent'' ''x''"
proof -
  let ?y = "textCodec uidAgent (stripServerManaged storedAgent)"
  have a: "storedAgent =
     fmupd ''status'' (JObject (fmap_of_list [(''ready'', JBool True)]))
       (SetResourceVersion uidAgent ''41'')"
    by (rule fmap_ext) (auto simp add: storedAgent_def uidAgent_def SetResourceVersion_def)
  have b: "stripServerManaged storedAgent = stripServerManaged uidAgent"
    by (simp add: storedAgent_stripped uidAgent_stripped)
  have e: "eraseManaged storedAgent = eraseManaged uidAgent"
    using b by (simp add: stripServerManaged_erases)
  have n: "GetNamespace uidAgent = []"
    by (simp add: uidAgent_def GetNamespace_def getNestedString_def NestedString_def)
  have k: "GetKind uidAgent = ''Agent''" "GetName uidAgent = ''x''"
    by (simp_all add: uidAgent_def GetKind_def GetName_def getNestedString_def NestedString_def)
  have d: "handleDiffManifest ?y kagentClient oneAgentStore ''agent.yaml'' =
      (DiffText ''Agent'' ''x'' plainAgent uidAgent, [GetCall AgentGVR ''kagent'' ''x''])"
    using diff_result [of "''agent.yaml''" ?y uidAgent AgentGVR kagentClient oneAgentStore
        storedAgent "''current.yaml''" "stripServerManaged storedAgent"]
    by (simp add: textCodec_texts k kagent_fetch storedAgent_stripped no_status plainAgent_neq)
  show ?thesis
    using a b e n d by simp
qed

section \<open>Diff: the namespace of the read\<close>

text \<open>
  Claim C3, at a manifest that names the namespace prod, for a client configured with the
  namespace kagent whose store holds kagent/x and no prod/x. The diff reads kagent/x and
  reports an update of it; Apply, on the same manifest, reads prod/x and creates it.
\<close>

theorem diff_reads_client_namespace:
  "GetNamespace prodAgent = ''prod''
   \<and> handleDiffManifest (textCodec prodAgent (stripServerManaged storedAgent))
        kagentClient oneAgentStore ''agent.yaml'' =
       (DiffText ''Agent'' ''x'' plainAgent prodAgent, [GetCall AgentGVR ''kagent'' ''x''])
   \<and> fst (snd (Apply (textCodec prodAgent (stripServerManaged storedAgent))
        kagentClient oneAgentStore ''agent.yaml'' True)) =
       [GetCall AgentGVR ''prod'' ''x'', CreateCall AgentGVR ''prod'' prodAgent True]
   \<and> fst (Apply (textCodec prodAgent (stripServerManaged storedAgent))
        kagentClient oneAgentStore ''agent.yaml'' True) =
       Inr \<lparr>Action = ''created'', Kind = ''Agent'', Name = ''x'', Namespace = ''prod'',
             DryRun = True\<rparr>"
proof -
  let ?y = "textCodec prodAgent (stripServerManaged storedAgent)"
  have k: "GetKind prodAgent = ''Agent''" "GetName prodAgent = ''x''"
    "GetNamespace prodAgent = ''prod''"
    by (simp_all add: prodAgent_def GetKind_def GetName_def GetNamespace_def getNestedString_def
          NestedString_def)
  have d: "handleDiffManifest ?y kagentClient oneAgentStore ''agent.yaml'' =
      (DiffText ''Agent'' ''x'' plainAgent prodAgent, [GetCall AgentGVR ''kagent'' ''x''])"
    using diff_result [of "''agent.yaml''" ?y prodAgent AgentGVR kagentClient oneAgentStore
        storedAgent "''current.yaml''" "stripServerManaged storedAgent"]
    by (simp add: textCodec_texts k kagent_fetch storedAgent_stripped no_status plainAgent_neq)
  have h1: "Unmarshal ?y ''agent.yaml'' = Inr prodAgent"
    by (rule textCodec_texts)
  have h2: "gvrFromObject prodAgent = Inr AgentGVR"
    by (simp add: gvrFromObject_def k kagent_fetch)
  have h3: "prodAgent = (if GetNamespace prodAgent = [] then SetNamespace prodAgent (namespace kagentClient)
      else prodAgent)"
    by (simp add: k)
  have h4: "Get (dynamicClient kagentClient) oneAgentStore AgentGVR (GetNamespace prodAgent)
      (GetName prodAgent) = Inl NotFound"
    by (simp add: k kagentClient_def memStore_def oneAgentStore_def)
  have c: "Create (dynamicClient kagentClient) oneAgentStore AgentGVR ''prod'' prodAgent True =
      (Inr prodAgent, oneAgentStore)"
    by (simp add: k kagentClient_def memStore_def oneAgentStore_def)
  show ?thesis
    using d Apply_fetch_failed [OF h1 h2 h3 h4, of True]
    by (simp add: k c)
qed

end
